theory Spec2Isabelle
  imports Main
begin

section \<open>JavaScript values and insertion-ordered maps\<close>

text \<open>
  The tracker keeps four global tables (\<open>rooms\<close>, \<open>rateLimitMap\<close>, \<open>blockedIPs\<close>,
  \<open>usedNonces\<close>). A JavaScript \<open>Map\<close>/\<open>Set\<close> iterates in insertion order, \<open>set\<close> on a
  present key keeps the key's position, and \<open>delete\<close> removes the key; the tables are
  association lists with exactly these operations. \<open>Date.now()\<close> is the argument
  \<open>now\<close> (milliseconds); one request reads one instant.

  JSON field values are the scalars below (objects and arrays are not modelled).
  Numbers are integers in the range where JavaScript arithmetic is exact (magnitude
  below \<open>2^53\<close>); strings are lists of characters with codes below 256.
\<close>

datatype jsval = JUndefined | JNull | JBool bool | JNum int | JStr string

fun truthy :: "jsval \<Rightarrow> bool" where
  "truthy JUndefined = False"
| "truthy JNull = False"
| "truthy (JBool b) = b"
| "truthy (JNum n) = (n \<noteq> 0)"
| "truthy (JStr s) = (s \<noteq> [])"

definition js_or :: "jsval \<Rightarrow> jsval \<Rightarrow> jsval" where
  "js_or a b = (if truthy a then a else b)"

definition map_has :: "'k \<Rightarrow> ('k \<times> 'v) list \<Rightarrow> bool" where
  "map_has k m = (k \<in> set (map fst m))"

fun map_set :: "'k \<Rightarrow> 'v \<Rightarrow> ('k \<times> 'v) list \<Rightarrow> ('k \<times> 'v) list" where
  "map_set k v [] = [(k, v)]"
| "map_set k v (e # m) = (if fst e = k then (k, v) # m else e # map_set k v m)"

definition map_delete :: "'k \<Rightarrow> ('k \<times> 'v) list \<Rightarrow> ('k \<times> 'v) list" where
  "map_delete k m = filter (\<lambda>e. fst e \<noteq> k) m"

section \<open>Configuration\<close>

text \<open>
  The values read from the environment are parameters; the constants written in the
  source are definitions. \<open>BLOCKED_IPS\<close> is the permanent blocklist and \<open>valid_url\<close>
  says whether the platform's \<open>new URL(s)\<close> accepts \<open>s\<close>.
\<close>

record config =
  PEER_TIMEOUT :: int
  RATE_LIMIT_MAX_REQUESTS :: int
  RATE_LIMIT_MAX_ANNOUNCES :: int
  DISABLE_RATE_LIMIT :: bool
  MAX_VIOLATIONS :: int
  BLOCK_DURATION :: int
  BLOCKED_IPS :: "string list"
  valid_url :: "string \<Rightarrow> bool"

definition MAX_ROOMS :: nat where "MAX_ROOMS = 100"
definition RATE_LIMIT_WINDOW :: int where "RATE_LIMIT_WINDOW = 60 * 1000"
definition MAX_RATE_LIMIT_ENTRIES :: nat where "MAX_RATE_LIMIT_ENTRIES = 1000"
definition NONCE_CLEANUP_INTERVAL :: int where "NONCE_CLEANUP_INTERVAL = 5 * 60 * 1000"
definition MAX_NONCES :: nat where "MAX_NONCES = 5000"
definition MAX_ROOM_ID_LENGTH :: nat where "MAX_ROOM_ID_LENGTH = 100"
definition MAX_NAME_LENGTH :: nat where "MAX_NAME_LENGTH = 50"

section \<open>IP blocking and rate limiting\<close>

record block_info =
  blockedUntil :: int
  reason :: string

record rate_entry =
  count :: int
  announceCount :: int
  resetTime :: int
  violations :: int

record limiter_state =
  rateLimitMap :: "(string \<times> rate_entry) list"
  blockedIPs :: "(string \<times> block_info) list"

text \<open>\<open>isIPBlocked\<close>: \<open>Some reason\<close> is \<open>{blocked: true, reason}\<close>, \<open>None\<close> is
  \<open>{blocked: false}\<close>; the second component is \<open>blockedIPs\<close> afterwards.\<close>

definition isIPBlocked ::
  "config \<Rightarrow> int \<Rightarrow> string \<Rightarrow> (string \<times> block_info) list
     \<Rightarrow> string option \<times> (string \<times> block_info) list" where
  "isIPBlocked cfg now ip bl =
     (if ip \<in> set (BLOCKED_IPS cfg) then (Some ''Permanently blocked'', bl)
      else case map_of bl ip of
             Some blockInfo \<Rightarrow>
               if now < blockedUntil blockInfo then (Some (reason blockInfo), bl)
               else (None, map_delete ip bl)
           | None \<Rightarrow> (None, bl))"

definition is_localhost :: "string \<Rightarrow> bool" where
  "is_localhost ip =
     (ip = ''127.0.0.1'' \<or> ip = ''::1'' \<or> ip = ''::ffff:127.0.0.1'' \<or> ip = ''localhost'')"

definition blockIP ::
  "int \<Rightarrow> string \<Rightarrow> string \<Rightarrow> int \<Rightarrow> (string \<times> block_info) list
     \<Rightarrow> (string \<times> block_info) list" where
  "blockIP now ip rsn duration bl =
     (if is_localhost ip then bl
      else map_set ip \<lparr>blockedUntil = now + duration, reason = rsn\<rparr> bl)"

text \<open>The outcome of the middleware: \<open>Next\<close> calls the handler, \<open>Blocked r\<close> is the 403
  answer \<open>Access denied: r\<close>, \<open>RateLimited s\<close> is the 429 answer \<open>Try again in s seconds\<close>.\<close>

datatype admit = Next | Blocked string | RateLimited int

text \<open>\<open>Math.ceil(ms / 1000)\<close> on integers.\<close>

definition ceil_seconds :: "int \<Rightarrow> int" where
  "ceil_seconds ms = - ((- ms) div 1000)"

definition new_rate_entry :: "int \<Rightarrow> rate_entry" where
  "new_rate_entry now =
     \<lparr>count = 0, announceCount = 0, resetTime = now + RATE_LIMIT_WINDOW, violations = 0\<rparr>"

text \<open>The hard limit on \<open>rateLimitMap\<close>: the entries sorted by \<open>resetTime\<close> (the sort
  is stable), the first \<open>size - MAX_RATE_LIMIT_ENTRIES\<close> of them deleted.\<close>

definition enforce_rate_limit_cap :: "(string \<times> rate_entry) list \<Rightarrow> (string \<times> rate_entry) list" where
  "enforce_rate_limit_cap rl =
     (if length rl > MAX_RATE_LIMIT_ENTRIES then
        let entries = sort_key (\<lambda>e. resetTime (snd e)) rl;
            toRemove = length rl - MAX_RATE_LIMIT_ENTRIES
        in fold (\<lambda>e m. map_delete (fst e) m) (take toRemove entries) rl
      else rl)"

text \<open>\<open>rateLimitData\<close> is an object shared with the map: the increments below are
  seen through the map only while the map still holds the entry.\<close>

definition write_entry :: "string \<Rightarrow> rate_entry \<Rightarrow> (string \<times> rate_entry) list \<Rightarrow> (string \<times> rate_entry) list" where
  "write_entry ip d rl = (if map_has ip rl then map_set ip d rl else rl)"

definition rateLimit ::
  "config \<Rightarrow> int \<Rightarrow> string \<Rightarrow> bool \<Rightarrow> limiter_state \<Rightarrow> admit \<times> limiter_state" where
  "rateLimit cfg now ip isPost st =
     (if DISABLE_RATE_LIMIT cfg then (Next, st)
      else if is_localhost ip then
        (case isIPBlocked cfg now ip (blockedIPs st) of
           (Some r, bl) \<Rightarrow> (Blocked r, st\<lparr>blockedIPs := bl\<rparr>)
         | (None, bl) \<Rightarrow> (Next, st\<lparr>blockedIPs := bl\<rparr>))
      else
        (case isIPBlocked cfg now ip (blockedIPs st) of
           (Some r, bl) \<Rightarrow> (Blocked r, st\<lparr>blockedIPs := bl\<rparr>)
         | (None, bl) \<Rightarrow>
             let kept = (case map_of (rateLimitMap st) ip of
                           None \<Rightarrow> None
                         | Some d \<Rightarrow> if now > resetTime d then None else Some d);
                 rateLimitData = (case kept of None \<Rightarrow> new_rate_entry now | Some d \<Rightarrow> d);
                 rl1 = (case kept of
                          None \<Rightarrow> map_set ip rateLimitData (rateLimitMap st)
                        | Some d \<Rightarrow> rateLimitMap st);
                 rl2 = enforce_rate_limit_cap rl1
             in if isPost then
                  let d1 = rateLimitData\<lparr>announceCount := announceCount rateLimitData + 1\<rparr>
                  in if announceCount d1 > RATE_LIMIT_MAX_ANNOUNCES cfg then
                       let d2 = d1\<lparr>violations := violations d1 + 1\<rparr>;
                           bl2 = (if violations d2 \<ge> MAX_VIOLATIONS cfg
                                  then blockIP now ip ''Excessive announce attempts'' (BLOCK_DURATION cfg) bl
                                  else bl)
                       in (RateLimited (ceil_seconds (resetTime d2 - now)),
                           \<lparr>rateLimitMap = write_entry ip d2 rl2, blockedIPs = bl2\<rparr>)
                     else (Next, \<lparr>rateLimitMap = write_entry ip d1 rl2, blockedIPs = bl\<rparr>)
                else
                  let d1 = rateLimitData\<lparr>count := count rateLimitData + 1\<rparr>
                  in if count d1 > RATE_LIMIT_MAX_REQUESTS cfg then
                       let d2 = d1\<lparr>violations := violations d1 + 1\<rparr>;
                           bl2 = (if violations d2 \<ge> MAX_VIOLATIONS cfg
                                  then blockIP now ip ''Excessive requests'' (BLOCK_DURATION cfg) bl
                                  else bl)
                       in (RateLimited (ceil_seconds (resetTime d2 - now)),
                           \<lparr>rateLimitMap = write_entry ip d2 rl2, blockedIPs = bl2\<rparr>)
                     else (Next, \<lparr>rateLimitMap = write_entry ip d1 rl2, blockedIPs = bl\<rparr>)))"

text \<open>One identity sends requests of one kind at the instants of the list, and nothing
  else happens in between: the answers in order, and the state at the end.\<close>

fun rateLimit_requests ::
  "config \<Rightarrow> string \<Rightarrow> bool \<Rightarrow> int list \<Rightarrow> limiter_state \<Rightarrow> admit list \<times> limiter_state" where
  "rateLimit_requests cfg ip isPost [] st = ([], st)"
| "rateLimit_requests cfg ip isPost (now # ts) st =
     (let r = rateLimit cfg now ip isPost st;
          rs = rateLimit_requests cfg ip isPost ts (snd r)
      in (fst r # fst rs, snd rs))"

text \<open>The periodic sweep of \<open>rateLimitMap\<close> (every five minutes): an entry whose window
  has passed loses one violation, or is deleted when it has none.\<close>

definition rateLimitCleanup :: "int \<Rightarrow> (string \<times> rate_entry) list \<Rightarrow> (string \<times> rate_entry) list" where
  "rateLimitCleanup now rl =
     fold (\<lambda>e m. let ip = fst e; d = snd e in
                  if now > resetTime d then
                    (if violations d > 0 then map_set ip (d\<lparr>violations := max 0 (violations d - 1)\<rparr>) m
                     else map_delete ip m)
                  else m) rl rl"

text \<open>The periodic sweep of \<open>blockedIPs\<close> (every minute).\<close>

definition ipBlockCleanup :: "int \<Rightarrow> (string \<times> block_info) list \<Rightarrow> (string \<times> block_info) list" where
  "ipBlockCleanup now bl =
     (let bl1 = fold (\<lambda>e m. if now \<ge> blockedUntil (snd e) then map_delete (fst e) m else m) bl bl
      in fold (\<lambda>ip m. if map_has ip m then map_delete ip m else m)
           [''127.0.0.1'', ''::1'', ''::ffff:127.0.0.1'', ''localhost''] bl1)"

section \<open>Rooms and announcements\<close>

text \<open>
  \<open>announcement\<close> is the JSON body of \<open>POST /announce\<close>; a field the body does not have is
  \<open>JUndefined\<close>. The numeric fields \<open>wagerAmount\<close>, \<open>timestamp\<close> and \<open>createdAt\<close> are
  JSON integers or absent (\<open>None\<close>); other JSON types in these three fields are not
  modelled. The field selectors of the body are written \<open>announcement.roomId data\<close>;
  the unqualified names are the fields of a stored \<open>room\<close>.
\<close>

record announcement =
  roomId :: jsval
  gameType :: jsval
  status :: jsval
  appBaseUrl :: jsval
  public :: jsval
  player1Name :: jsval
  player1WalletAddress :: jsval
  player1WalletPuzzleHash :: jsval
  player1PublicKey :: jsval
  player1IdentityPublicKey :: jsval
  player1IdentityAddress :: jsval
  player1PeerId :: jsval
  player2Name :: jsval
  player2WalletAddress :: jsval
  player2WalletPuzzleHash :: jsval
  player2PublicKey :: jsval
  player2IdentityPublicKey :: jsval
  player2IdentityAddress :: jsval
  player2PeerId :: jsval
  stateChannelCoinId :: jsval
  wagerAmount :: "int option"
  activeGameId :: jsval
  createdAt :: "int option"
  timestamp :: "int option"
  nonce :: jsval

record room =
  roomId :: jsval
  gameType :: jsval
  status :: jsval
  appBaseUrl :: jsval
  public :: jsval
  player1Name :: jsval
  player1WalletAddress :: jsval
  player1WalletPuzzleHash :: jsval
  player1PublicKey :: jsval
  player1IdentityPublicKey :: jsval
  player1IdentityAddress :: jsval
  player1PeerId :: jsval
  player2Name :: jsval
  player2WalletAddress :: jsval
  player2WalletPuzzleHash :: jsval
  player2PublicKey :: jsval
  player2IdentityPublicKey :: jsval
  player2IdentityAddress :: jsval
  player2PeerId :: jsval
  stateChannelCoinId :: jsval
  wagerAmount :: int
  activeGameId :: jsval
  createdAt :: int
  updatedAt :: int

text \<open>The three tables the announce path touches. A pending \<open>setTimeout\<close> that will
  delete a nonce is a pair of the nonce and the instant it fires.\<close>

record registry =
  rooms :: "(jsval \<times> room) list"
  usedNonces :: "jsval list"
  nonceTimers :: "(jsval \<times> int) list"

subsection \<open>String helpers of the validation\<close>

fun is_string :: "jsval \<Rightarrow> bool" where
  "is_string (JStr s) = True"
| "is_string v = False"

fun is_boolean :: "jsval \<Rightarrow> bool" where
  "is_boolean (JBool b) = True"
| "is_boolean v = False"

fun str :: "jsval \<Rightarrow> string" where
  "str (JStr s) = s"
| "str v = []"

text \<open>The character class \<open>[a-zA-Z0-9_-]\<close>.\<close>

definition roomId_char :: "char \<Rightarrow> bool" where
  "roomId_char c =
     (let n = of_char c :: nat in
        (97 \<le> n \<and> n \<le> 122) \<or> (65 \<le> n \<and> n \<le> 90) \<or> (48 \<le> n \<and> n \<le> 57)
        \<or> c = CHR ''_'' \<or> c = CHR ''-'')"

definition roomId_pattern :: "string \<Rightarrow> bool" where
  "roomId_pattern s = (s \<noteq> [] \<and> list_all roomId_char s)"

text \<open>\<open>toLowerCase\<close> on characters below 256: \<open>A\<close> to \<open>Z\<close>, and the accented capitals
  192 to 222 without the multiplication sign 215.\<close>

definition lower_char :: "char \<Rightarrow> char" where
  "lower_char c =
     (let n = of_char c :: nat in
        if (65 \<le> n \<and> n \<le> 90) \<or> (192 \<le> n \<and> n \<le> 222 \<and> n \<noteq> 215)
        then char_of (n + 32) else c)"

definition toLowerCase :: "string \<Rightarrow> string" where
  "toLowerCase s = map lower_char s"

text \<open>White space that \<open>trim\<close> removes, below 256.\<close>

definition js_space :: "char \<Rightarrow> bool" where
  "js_space c = (of_char c \<in> {9, 10, 11, 12, 13, 32, 160 :: nat})"

definition trim :: "string \<Rightarrow> string" where
  "trim s = rev (dropWhile js_space (rev (dropWhile js_space s)))"

definition startsWith :: "string \<Rightarrow> string \<Rightarrow> bool" where
  "startsWith s p = (take (length p) s = p)"

fun str_includes :: "string \<Rightarrow> string \<Rightarrow> bool" where
  "str_includes [] sub = (sub = [])"
| "str_includes (c # s) sub = (startsWith (c # s) sub \<or> str_includes s sub)"

definition validGameTypes :: "string list" where
  "validGameTypes = [''rockpaperscissors'', ''calpoker'', ''battleship'', ''tictactoe'']"

definition validStatuses :: "jsval list" where
  "validStatuses = [JStr ''waiting'', JStr ''active'', JStr ''finished'', JStr ''cancelled'']"

subsection \<open>The replay guard\<close>

definition set_add :: "'a \<Rightarrow> 'a list \<Rightarrow> 'a list" where
  "set_add x s = (if x \<in> set s then s else s @ [x])"

definition set_delete :: "'a \<Rightarrow> 'a list \<Rightarrow> 'a list" where
  "set_delete x s = filter (\<lambda>y. y \<noteq> x) s"

text \<open>The nonce block of \<open>validateAnnouncement\<close>: the errors it pushes, \<open>usedNonces\<close>
  and the pending timers afterwards. \<open>usedNonces.values().next().value\<close> is the first
  element in insertion order (\<open>undefined\<close> on an empty set).\<close>

definition nonce_check ::
  "int \<Rightarrow> jsval \<Rightarrow> jsval list \<Rightarrow> (jsval \<times> int) list
     \<Rightarrow> string list \<times> jsval list \<times> (jsval \<times> int) list" where
  "nonce_check now n used timers =
     (if truthy n then
        let r = (if n \<in> set used then ([''Duplicate nonce (replay attack detected)''], used)
                 else if length used \<ge> MAX_NONCES then
                   let oldestNonce = (case used of [] \<Rightarrow> JUndefined | x # xs \<Rightarrow> x)
                   in ([], set_add n (set_delete oldestNonce used))
                 else ([], set_add n used))
        in (fst r, snd r, timers @ [(n, now + NONCE_CLEANUP_INTERVAL)])
      else ([], used, timers))"

text \<open>The timers that are due at \<open>now\<close> run in the order they were set; each deletes
  its nonce.\<close>

definition run_nonce_timers :: "int \<Rightarrow> registry \<Rightarrow> registry" where
  "run_nonce_timers now reg =
     reg\<lparr>usedNonces := fold (\<lambda>t s. set_delete (fst t) s)
                            (filter (\<lambda>t. snd t \<le> now) (nonceTimers reg)) (usedNonces reg),
         nonceTimers := filter (\<lambda>t. \<not> snd t \<le> now) (nonceTimers reg)\<rparr>"

subsection \<open>validateAnnouncement\<close>

text \<open>The function in two parts: the checks of the fields, which only read the body
  and the clock, and then the nonce block, which also changes \<open>usedNonces\<close>.\<close>

definition field_errors :: "config \<Rightarrow> int \<Rightarrow> announcement \<Rightarrow> string list" where
  "field_errors cfg now data =
     (let
        e_roomId =
          (let v = announcement.roomId data in
           if \<not> truthy v \<or> \<not> is_string v then [''Missing or invalid roomId'']
           else if length (str v) > MAX_ROOM_ID_LENGTH then [''roomId too long (max 100 characters)'']
           else if \<not> roomId_pattern (str v)
             then [''roomId contains invalid characters (alphanumeric, dash, underscore only)'']
           else []);
        e_gameType =
          (let v = announcement.gameType data in
           if v \<noteq> JNull \<and> v \<noteq> JUndefined then
             (if \<not> is_string v then [''Invalid gameType (must be string or null)'']
              else if toLowerCase (str v) \<notin> set validGameTypes
                then [''Invalid gameType. Must be one of: rockpaperscissors, calpoker, battleship, tictactoe or null'']
              else [])
           else []);
        e_player1Name =
          (let v = announcement.player1Name data in
           if \<not> truthy v \<or> \<not> is_string v then [''Missing or invalid player1Name'']
           else if length (str v) > MAX_NAME_LENGTH then [''player1Name too long (max 50 characters)'']
           else if length (trim (str v)) = 0 then [''player1Name cannot be empty'']
           else []);
        e_wallet =
          (let v = announcement.player1WalletAddress data in
           if \<not> truthy v \<or> \<not> is_string v then [''Missing or invalid player1WalletAddress'']
           else if \<not> startsWith (str v) ''xch1'' \<and> \<not> startsWith (str v) ''txch1''
             then [''Invalid wallet address format (must start with xch1 or txch1)'']
           else if length (str v) > 100 then [''Wallet address too long'']
           else []);
        e_puzzleHash =
          (let v = announcement.player1WalletPuzzleHash data in
           if v \<noteq> JUndefined \<and> v \<noteq> JNull then
             (if \<not> is_string v then [''Invalid player1WalletPuzzleHash (must be string or null)'']
              else if length (str v) > 100 then [''player1WalletPuzzleHash too long'']
              else [])
           else []);
        e_publicKey =
          (let v = announcement.player1PublicKey data in
           if v \<noteq> JUndefined \<and> v \<noteq> JNull \<and> (\<not> is_string v \<or> length (str v) > 200)
           then [''Invalid player1PublicKey (must be string, max 200 chars)''] else []);
        e_identityPublicKey =
          (let v = announcement.player1IdentityPublicKey data in
           if v \<noteq> JUndefined \<and> v \<noteq> JNull \<and> (\<not> is_string v \<or> length (str v) > 200)
           then [''Invalid player1IdentityPublicKey (must be string, max 200 chars)''] else []);
        e_identityAddress =
          (let v = announcement.player1IdentityAddress data in
           if v \<noteq> JUndefined \<and> v \<noteq> JNull \<and> (\<not> is_string v \<or> length (str v) > 100)
           then [''Invalid player1IdentityAddress (must be string, max 100 chars)''] else []);
        e_peerId =
          (let v = announcement.player1PeerId data in
           if \<not> truthy v \<or> \<not> is_string v then [''Missing or invalid player1PeerId'']
           else if length (str v) > 200 then [''player1PeerId too long (max 200 characters)'']
           else []);
        e_appBaseUrl =
          (let v = announcement.appBaseUrl data in
           if \<not> truthy v \<or> \<not> is_string v then [''Missing or invalid appBaseUrl'']
           else if \<not> valid_url cfg (str v) then [''appBaseUrl must be a valid URL'']
           else []);
        e_player2Name =
          (let v = announcement.player2Name data in
           if v \<noteq> JUndefined \<and> v \<noteq> JNull \<and> (\<not> is_string v \<or> length (str v) > MAX_NAME_LENGTH)
           then [''Invalid player2Name (must be string, max 50 chars, or null)''] else []);
        e_player2Wallet =
          (let v = announcement.player2WalletAddress data in
           if v \<noteq> JUndefined \<and> v \<noteq> JNull then
             (if \<not> is_string v then [''Invalid player2WalletAddress (must be string or null)'']
              else if \<not> startsWith (str v) ''xch1'' \<and> \<not> startsWith (str v) ''txch1''
                then [''Invalid player2WalletAddress format (must start with xch1 or txch1)'']
              else [])
           else []);
        e_coinId =
          (let v = announcement.stateChannelCoinId data in
           if v \<noteq> JUndefined \<and> v \<noteq> JNull \<and> (\<not> is_string v \<or> length (str v) > 100)
           then [''Invalid stateChannelCoinId (must be string, max 100 chars, or null)''] else []);
        e_activeGameId =
          (let v = announcement.activeGameId data in
           if v \<noteq> JUndefined \<and> v \<noteq> JNull \<and> (\<not> is_string v \<or> length (str v) > 200)
           then [''Invalid activeGameId (must be string, max 200 chars, or null)''] else []);
        e_wager =
          (case announcement.wagerAmount data of
             None \<Rightarrow> []
           | Some wager \<Rightarrow>
               if wager < 0 then [''Invalid wagerAmount (must be non-negative integer)'']
               else if wager > 1000000000000 then [''wagerAmount too large'']
               else []);
        e_status =
          (let v = announcement.status data in
           if truthy v \<and> v \<notin> set validStatuses
           then [''Invalid status. Must be one of: waiting, active, finished, cancelled''] else []);
        e_public =
          (let v = announcement.public data in
           if v \<noteq> JUndefined \<and> \<not> is_boolean v then [''Invalid public flag (must be boolean)''] else []);
        e_timestamp =
          (case announcement.timestamp data of
             None \<Rightarrow> []
           | Some t \<Rightarrow>
               if t \<noteq> 0 \<and> \<bar>now - t\<bar> > 30000 then [''Request timestamp too far from server time'']
               else [])
      in e_roomId @ e_gameType @ e_player1Name @ e_wallet @ e_puzzleHash @ e_publicKey
           @ e_identityPublicKey @ e_identityAddress @ e_peerId @ e_appBaseUrl @ e_player2Name
           @ e_player2Wallet @ e_coinId @ e_activeGameId @ e_wager @ e_status @ e_public
           @ e_timestamp)"

definition validateAnnouncement ::
  "config \<Rightarrow> int \<Rightarrow> announcement \<Rightarrow> jsval list \<Rightarrow> (jsval \<times> int) list
     \<Rightarrow> string list \<times> jsval list \<times> (jsval \<times> int) list" where
  "validateAnnouncement cfg now data used timers =
     (let errors = field_errors cfg now data;
          n = nonce_check now (announcement.nonce data) used timers
      in (errors @ fst n, snd n))"

subsection \<open>POST /announce\<close>

datatype announce_response = Announced room | BadRequest "string list"

text \<open>The update branch: the stored room object is changed field by field.\<close>

definition update_room :: "int \<Rightarrow> announcement \<Rightarrow> room \<Rightarrow> room" where
  "update_room now data room =
     room\<lparr>
       gameType := (if announcement.gameType data \<noteq> JUndefined then announcement.gameType data
                    else gameType room),
       status := js_or (announcement.status data) (status room),
       appBaseUrl := (if truthy (announcement.appBaseUrl data) then announcement.appBaseUrl data
                      else appBaseUrl room),
       public := (if announcement.public data \<noteq> JUndefined then announcement.public data
                  else public room),
       player1Name := (if truthy (announcement.player1Name data)
                       then announcement.player1Name data else player1Name room),
       player1WalletAddress := (if truthy (announcement.player1WalletAddress data)
                       then announcement.player1WalletAddress data else player1WalletAddress room),
       player1WalletPuzzleHash := (if truthy (announcement.player1WalletPuzzleHash data)
                       then announcement.player1WalletPuzzleHash data else player1WalletPuzzleHash room),
       player1PublicKey := (if truthy (announcement.player1PublicKey data)
                       then announcement.player1PublicKey data else player1PublicKey room),
       player1IdentityPublicKey := (if truthy (announcement.player1IdentityPublicKey data)
                       then announcement.player1IdentityPublicKey data else player1IdentityPublicKey room),
       player1IdentityAddress := (if truthy (announcement.player1IdentityAddress data)
                       then announcement.player1IdentityAddress data else player1IdentityAddress room),
       player1PeerId := (if truthy (announcement.player1PeerId data)
                       then announcement.player1PeerId data else player1PeerId room),
       player2Name := (if announcement.player2Name data \<noteq> JUndefined
                       then announcement.player2Name data else player2Name room),
       player2WalletAddress := (if announcement.player2WalletAddress data \<noteq> JUndefined
                       then announcement.player2WalletAddress data else player2WalletAddress room),
       player2WalletPuzzleHash := (if announcement.player2WalletPuzzleHash data \<noteq> JUndefined
                       then announcement.player2WalletPuzzleHash data else player2WalletPuzzleHash room),
       player2PublicKey := (if announcement.player2PublicKey data \<noteq> JUndefined
                       then announcement.player2PublicKey data else player2PublicKey room),
       player2IdentityPublicKey := (if announcement.player2IdentityPublicKey data \<noteq> JUndefined
                       then announcement.player2IdentityPublicKey data else player2IdentityPublicKey room),
       player2IdentityAddress := (if announcement.player2IdentityAddress data \<noteq> JUndefined
                       then announcement.player2IdentityAddress data else player2IdentityAddress room),
       player2PeerId := (if announcement.player2PeerId data \<noteq> JUndefined
                       then announcement.player2PeerId data else player2PeerId room),
       stateChannelCoinId := (if announcement.stateChannelCoinId data \<noteq> JUndefined
                       then announcement.stateChannelCoinId data else stateChannelCoinId room),
       wagerAmount := (case announcement.wagerAmount data of Some w \<Rightarrow> w | None \<Rightarrow> wagerAmount room),
       activeGameId := (if announcement.activeGameId data \<noteq> JUndefined
                       then announcement.activeGameId data else activeGameId room),
       updatedAt := now\<rparr>"

text \<open>The create branch.\<close>

definition create_room :: "int \<Rightarrow> announcement \<Rightarrow> room" where
  "create_room now data =
     \<lparr>roomId = announcement.roomId data,
      gameType = js_or (announcement.gameType data) JNull,
      status = js_or (announcement.status data) (JStr ''waiting''),
      appBaseUrl = announcement.appBaseUrl data,
      public = (if announcement.public data \<noteq> JUndefined then announcement.public data
                else JBool True),
      player1Name = announcement.player1Name data,
      player1WalletAddress = announcement.player1WalletAddress data,
      player1WalletPuzzleHash = js_or (announcement.player1WalletPuzzleHash data) JNull,
      player1PublicKey = js_or (announcement.player1PublicKey data) JNull,
      player1IdentityPublicKey = js_or (announcement.player1IdentityPublicKey data) JNull,
      player1IdentityAddress = js_or (announcement.player1IdentityAddress data) JNull,
      player1PeerId = announcement.player1PeerId data,
      player2Name = js_or (announcement.player2Name data) JNull,
      player2WalletAddress = js_or (announcement.player2WalletAddress data) JNull,
      player2WalletPuzzleHash = js_or (announcement.player2WalletPuzzleHash data) JNull,
      player2PublicKey = js_or (announcement.player2PublicKey data) JNull,
      player2IdentityPublicKey = js_or (announcement.player2IdentityPublicKey data) JNull,
      player2IdentityAddress = js_or (announcement.player2IdentityAddress data) JNull,
      player2PeerId = js_or (announcement.player2PeerId data) JNull,
      stateChannelCoinId = js_or (announcement.stateChannelCoinId data) JNull,
      wagerAmount = (case announcement.wagerAmount data of
                       Some w \<Rightarrow> if w \<noteq> 0 then w else 0 | None \<Rightarrow> 0),
      activeGameId = js_or (announcement.activeGameId data) JNull,
      createdAt = (case announcement.createdAt data of
                     Some c \<Rightarrow> if c \<noteq> 0 then c else now | None \<Rightarrow> now),
      updatedAt = now\<rparr>"

text \<open>The room limit of the write path: at \<open>MAX_ROOMS\<close> or more, the first entry of
  the entries sorted by \<open>createdAt\<close> is deleted.\<close>

definition enforce_room_limit :: "(jsval \<times> room) list \<Rightarrow> (jsval \<times> room) list" where
  "enforce_room_limit rs =
     (if length rs \<ge> MAX_ROOMS then
        (case sort_key (\<lambda>e. createdAt (snd e)) rs of
           [] \<Rightarrow> rs
         | e # es \<Rightarrow> map_delete (fst e) rs)
      else rs)"

definition post_announce ::
  "config \<Rightarrow> int \<Rightarrow> announcement \<Rightarrow> registry \<Rightarrow> announce_response \<times> registry" where
  "post_announce cfg now data reg =
     (let v = validateAnnouncement cfg now data (usedNonces reg) (nonceTimers reg);
          errors = fst v;
          reg1 = reg\<lparr>usedNonces := fst (snd v), nonceTimers := snd (snd v)\<rparr>
      in if length errors > 0 then (BadRequest errors, reg1)
         else
           let rs = enforce_room_limit (rooms reg1) in
           (case map_of rs (announcement.roomId data) of
              Some room \<Rightarrow>
                let room' = update_room now data room
                in (Announced room', reg1\<lparr>rooms := map_set (announcement.roomId data) room' rs\<rparr>)
            | None \<Rightarrow>
                let room = create_room now data
                in (Announced room, reg1\<lparr>rooms := map_set (announcement.roomId data) room rs\<rparr>)))"

subsection \<open>Expiry\<close>

text \<open>The test the three sweeps make on a room:
  \<open>lastActivity && (now - lastActivity > PEER_TIMEOUT * 1000)\<close> with
  \<open>lastActivity = room.updatedAt || room.createdAt\<close>.\<close>

definition lastActivity :: "room \<Rightarrow> int" where
  "lastActivity room = (if updatedAt room \<noteq> 0 then updatedAt room else createdAt room)"

definition room_expired :: "config \<Rightarrow> int \<Rightarrow> room \<Rightarrow> bool" where
  "room_expired cfg now room =
     (lastActivity room \<noteq> 0 \<and> now - lastActivity room > PEER_TIMEOUT cfg * 1000)"

definition sweepExpired :: "config \<Rightarrow> int \<Rightarrow> (jsval \<times> room) list \<Rightarrow> (jsval \<times> room) list" where
  "sweepExpired cfg now rs =
     fold (\<lambda>e m. if room_expired cfg now (snd e) then map_delete (fst e) m else m) rs rs"

text \<open>The periodic room cleanup (every minute): the sweep, then the hard limit.\<close>

definition roomCleanup :: "config \<Rightarrow> int \<Rightarrow> (jsval \<times> room) list \<Rightarrow> (jsval \<times> room) list" where
  "roomCleanup cfg now rs =
     (let rs1 = sweepExpired cfg now rs;
          roomCount = length rs1
      in if roomCount > MAX_ROOMS then
           let toRemove = roomCount - MAX_ROOMS;
               sortedRooms = sort_key (\<lambda>e. createdAt (snd e)) rs1
           in fold (\<lambda>e m. map_delete (fst e) m) (take toRemove sortedRooms) rs1
         else rs1)"

subsection \<open>GET /announce\<close>

text \<open>
  A query parameter is a string or absent. A numeric parameter is given by what the
  built-in \<open>parseInt\<close> makes of it: \<open>PAbsent\<close> when the parameter is \<open>undefined\<close>,
  \<open>PNaN\<close> when it does not start with an integer, \<open>PInt n\<close> otherwise.
\<close>

datatype num_param = PAbsent | PNaN | PInt int

record query =
  q_gameType :: "string option"
  q_status :: "string option"
  q_search :: "string option"
  q_minWager :: num_param
  q_maxWager :: num_param
  q_sort :: "string option"
  q_offset :: num_param
  q_limit :: num_param
  q_includePrivate :: "string option"

definition validateQueryParams :: "query \<Rightarrow> string list" where
  "validateQueryParams q =
     (case q_offset q of
        PAbsent \<Rightarrow> []
      | PNaN \<Rightarrow> [''Invalid offset (must be non-negative integer)'']
      | PInt offset \<Rightarrow> if offset < 0 then [''Invalid offset (must be non-negative integer)''] else [])
     @ (case q_limit q of
        PAbsent \<Rightarrow> []
      | PNaN \<Rightarrow> [''Invalid limit (must be between 1 and 200)'']
      | PInt limit \<Rightarrow> if limit < 1 \<or> limit > 200 then [''Invalid limit (must be between 1 and 200)''] else [])
     @ (case q_minWager q of
        PAbsent \<Rightarrow> []
      | PNaN \<Rightarrow> [''Invalid minWager (must be non-negative integer)'']
      | PInt minWager \<Rightarrow> if minWager < 0 then [''Invalid minWager (must be non-negative integer)''] else [])
     @ (case q_maxWager q of
        PAbsent \<Rightarrow> []
      | PNaN \<Rightarrow> [''Invalid maxWager (must be non-negative integer)'']
      | PInt maxWager \<Rightarrow> if maxWager < 0 then [''Invalid maxWager (must be non-negative integer)''] else [])
     @ (case q_includePrivate q of
        None \<Rightarrow> []
      | Some includePrivate \<Rightarrow>
          if includePrivate \<noteq> ''true'' \<and> includePrivate \<noteq> ''false''
             \<and> includePrivate \<noteq> ''1'' \<and> includePrivate \<noteq> ''0''
          then [''Invalid includePrivate (must be true/false, 1/0)''] else [])"

definition sanitizeSearch :: "string option \<Rightarrow> string" where
  "sanitizeSearch query =
     (case query of
        None \<Rightarrow> []
      | Some s \<Rightarrow> if s = [] then []
                  else filter (\<lambda>c. c \<notin> {CHR ''<'', CHR ''>'', CHR 0x22, CHR 0x27}) (take 100 s))"

text \<open>\<open>x || d\<close> on a string parameter and on a \<open>parseInt\<close> result.\<close>

definition str_or :: "string option \<Rightarrow> string \<Rightarrow> string" where
  "str_or p d = (case p of None \<Rightarrow> d | Some s \<Rightarrow> if s = [] then d else s)"

definition num_or :: "num_param \<Rightarrow> int \<Rightarrow> int" where
  "num_or p d = (case p of PInt n \<Rightarrow> if n \<noteq> 0 then n else d | _ \<Rightarrow> d)"

definition offset_of :: "query \<Rightarrow> nat" where
  "offset_of q = nat (max 0 (num_or (q_offset q) 0))"

definition limit_of :: "query \<Rightarrow> nat" where
  "limit_of q = nat (min (max 1 (num_or (q_limit q) 50)) 200)"

text \<open>One field of the search: \<open>f && f.toLowerCase().includes(searchLower)\<close>.
  \<open>None\<close> is the \<open>TypeError\<close> of calling \<open>toLowerCase\<close> on a truthy value that is not
  a string.\<close>

definition field_includes :: "jsval \<Rightarrow> string \<Rightarrow> bool option" where
  "field_includes f searchLower =
     (if \<not> truthy f then Some False
      else if is_string f then Some (str_includes (toLowerCase (str f)) searchLower)
      else None)"

text \<open>\<open>a || b\<close> where evaluating \<open>a\<close> may throw.\<close>

definition or_else :: "bool option \<Rightarrow> bool option \<Rightarrow> bool option" where
  "or_else a b = (case a of None \<Rightarrow> None | Some True \<Rightarrow> Some True | Some False \<Rightarrow> b)"

text \<open>The search predicate; a stored room has no \<open>player1\<close> or \<open>player2\<close> object, so
  the last two disjuncts of the source are false.\<close>

definition search_match :: "string \<Rightarrow> room \<Rightarrow> bool option" where
  "search_match searchLower r =
     or_else (field_includes (roomId r) searchLower)
       (or_else (field_includes (player1Name r) searchLower)
          (or_else (field_includes (player2Name r) searchLower) (Some False)))"

text \<open>\<open>filter\<close> with a callback that may throw: the first throw aborts.\<close>

fun filter_throwing :: "('a \<Rightarrow> bool option) \<Rightarrow> 'a list \<Rightarrow> 'a list option" where
  "filter_throwing P [] = Some []"
| "filter_throwing P (x # xs) =
     (case P x of
        None \<Rightarrow> None
      | Some b \<Rightarrow> (case filter_throwing P xs of
                     None \<Rightarrow> None
                   | Some ys \<Rightarrow> Some (if b then x # ys else ys)))"

definition sort_rooms :: "string \<Rightarrow> room list \<Rightarrow> room list" where
  "sort_rooms srt roomList =
     (if srt = ''oldest'' then sort_key (\<lambda>r. createdAt r) roomList
      else if srt = ''wager_high'' then sort_key (\<lambda>r. - wagerAmount r) roomList
      else if srt = ''wager_low'' then sort_key (\<lambda>r. wagerAmount r) roomList
      else sort_key (\<lambda>r. - createdAt r) roomList)"

text \<open>The filters of the handler, in the order of the source, on the values of the
  registry after the sweep.\<close>

definition filter_rooms :: "query \<Rightarrow> room list \<Rightarrow> room list option" where
  "filter_rooms q roomList0 =
     (let gameType' = str_or (q_gameType q) ''all'';
          status' = str_or (q_status q) ''all'';
          search = sanitizeSearch (q_search q);
          minWager = num_or (q_minWager q) 0;
          maxWager = (case q_maxWager q of PInt n \<Rightarrow> if n \<noteq> 0 then Some n else None | _ \<Rightarrow> None);
          includePrivate = (q_includePrivate q = Some ''true'' \<or> q_includePrivate q = Some ''1'');
          l1 = (if \<not> includePrivate then filter (\<lambda>r. public r \<noteq> JBool False) roomList0
                else roomList0);
          l2 = (if gameType' \<noteq> [] \<and> gameType' \<noteq> ''all''
                then filter (\<lambda>r. gameType r = JStr gameType') l1 else l1);
          l3 = (if status' \<noteq> [] \<and> status' \<noteq> ''all''
                then filter (\<lambda>r. status r = JStr status') l2 else l2);
          l4 = filter (\<lambda>r. let wager = (if wagerAmount r \<noteq> 0 then wagerAmount r else 0)
                            in wager \<ge> minWager \<and> (case maxWager of None \<Rightarrow> True | Some m \<Rightarrow> wager \<le> m)) l3
      in if search \<noteq> [] then filter_throwing (search_match (toLowerCase search)) l4
         else Some l4)"

record room_list =
  complete :: nat
  total :: nat
  offset :: nat
  limit :: nat
  listed :: "room list"

datatype list_response = Listed room_list | BadQuery "string list" | InternalError

definition get_announce ::
  "config \<Rightarrow> int \<Rightarrow> query \<Rightarrow> (jsval \<times> room) list \<Rightarrow> list_response \<times> (jsval \<times> room) list" where
  "get_announce cfg now q rs =
     (let queryErrors = validateQueryParams q
      in if length queryErrors > 0 then (BadQuery queryErrors, rs)
         else
           let rs1 = sweepExpired cfg now rs
           in (case filter_rooms q (map snd rs1) of
                 None \<Rightarrow> (InternalError, rs1)
               | Some roomList \<Rightarrow>
                   let sorted = sort_rooms (str_or (q_sort q) ''newest'') roomList;
                       paginatedRooms = take (limit_of q) (drop (offset_of q) sorted)
                   in (Listed \<lparr>complete = length paginatedRooms, total = length sorted,
                                offset = offset_of q, limit = limit_of q,
                                listed = paginatedRooms\<rparr>, rs1)))"

subsection \<open>GET /scrape\<close>

definition bump :: "jsval \<Rightarrow> (jsval \<times> nat) list \<Rightarrow> (jsval \<times> nat) list" where
  "bump k counts = map_set k ((case map_of counts k of Some c \<Rightarrow> c | None \<Rightarrow> 0) + 1) counts"

record statistics =
  totalRooms :: nat
  roomsByGameType :: "(jsval \<times> nat) list"
  roomsByStatus :: "(jsval \<times> nat) list"

definition scrape :: "config \<Rightarrow> int \<Rightarrow> (jsval \<times> room) list \<Rightarrow> statistics \<times> (jsval \<times> room) list" where
  "scrape cfg now rs =
     (let rs1 = sweepExpired cfg now rs;
          activeRooms = map snd rs1
      in (\<lparr>totalRooms = length activeRooms,
           roomsByGameType = fold (\<lambda>room m. bump (js_or (gameType room) (JStr ''unknown'')) m) activeRooms [],
           roomsByStatus = fold (\<lambda>room m. bump (js_or (status room) (JStr ''unknown'')) m) activeRooms []\<rparr>,
          rs1))"

section \<open>Example inputs\<close>

text \<open>The defaults of the source as a configuration (with a stand-in for the URL
  parser), and the valid body that the repository's tests post.\<close>

definition example_config :: config where
  "example_config =
     \<lparr>PEER_TIMEOUT = 600, RATE_LIMIT_MAX_REQUESTS = 120, RATE_LIMIT_MAX_ANNOUNCES = 20,
      DISABLE_RATE_LIMIT = False, MAX_VIOLATIONS = 10, BLOCK_DURATION = 300000,
      BLOCKED_IPS = [], valid_url = (\<lambda>s. startsWith s ''https://'')\<rparr>"

definition example_announcement :: "string \<Rightarrow> announcement" where
  "example_announcement rid =
     \<lparr>announcement.roomId = JStr rid, announcement.gameType = JStr ''rockpaperscissors'', announcement.status = JStr ''waiting'',
      announcement.appBaseUrl = JStr ''https://crate.ink'', announcement.public = JBool True,
      announcement.player1Name = JStr ''TestPlayer'',
      announcement.player1WalletAddress = JStr ''xch1test1234567890123456789012345678901234567890'',
      announcement.player1WalletPuzzleHash = JUndefined, announcement.player1PublicKey = JUndefined,
      announcement.player1IdentityPublicKey = JUndefined, announcement.player1IdentityAddress = JUndefined,
      announcement.player1PeerId = JStr ''peer-test-123'',
      announcement.player2Name = JUndefined, announcement.player2WalletAddress = JUndefined,
      announcement.player2WalletPuzzleHash = JUndefined, announcement.player2PublicKey = JUndefined,
      announcement.player2IdentityPublicKey = JUndefined, announcement.player2IdentityAddress = JUndefined,
      announcement.player2PeerId = JUndefined, announcement.stateChannelCoinId = JUndefined,
      announcement.wagerAmount = None, announcement.activeGameId = JUndefined, announcement.createdAt = None, announcement.timestamp = None,
      announcement.nonce = JUndefined\<rparr>"

text \<open>The room that the example body creates at the instant \<open>c\<close>, and a query.\<close>

definition example_room :: "string \<Rightarrow> int \<Rightarrow> room" where
  "example_room rid c = create_room c (example_announcement rid)"

definition example_query :: query where
  "example_query =
     \<lparr>q_gameType = None, q_status = None, q_search = None, q_minWager = PAbsent,
      q_maxWager = PAbsent, q_sort = Some ''oldest'', q_offset = PInt 2, q_limit = PInt 2,
      q_includePrivate = None\<rparr>"

text \<open>A registry of \<open>n\<close> rooms \<open>a\<close>, \<open>aa\<close>, \<open>aaa\<close>, ... created one millisecond apart,
  and a body that has only \<open>roomId\<close> and \<open>status: "active"\<close>.\<close>

definition example_rooms :: "nat \<Rightarrow> (jsval \<times> room) list" where
  "example_rooms n =
     map (\<lambda>i. (JStr (replicate (Suc i) CHR ''a''),
                example_room (replicate (Suc i) CHR ''a'') (1000 + int i))) [0..<n]"

definition status_only :: "string \<Rightarrow> announcement" where
  "status_only rid =
     \<lparr>announcement.roomId = JStr rid, announcement.gameType = JUndefined,
      announcement.status = JStr ''active'',
      announcement.appBaseUrl = JUndefined, announcement.public = JUndefined,
      announcement.player1Name = JUndefined,
      announcement.player1WalletAddress = JUndefined,
      announcement.player1WalletPuzzleHash = JUndefined, announcement.player1PublicKey = JUndefined,
      announcement.player1IdentityPublicKey = JUndefined, announcement.player1IdentityAddress = JUndefined,
      announcement.player1PeerId = JUndefined,
      announcement.player2Name = JUndefined, announcement.player2WalletAddress = JUndefined,
      announcement.player2WalletPuzzleHash = JUndefined, announcement.player2PublicKey = JUndefined,
      announcement.player2IdentityPublicKey = JUndefined, announcement.player2IdentityAddress = JUndefined,
      announcement.player2PeerId = JUndefined, announcement.stateChannelCoinId = JUndefined,
      announcement.wagerAmount = None, announcement.activeGameId = JUndefined,
      announcement.createdAt = None, announcement.timestamp = None,
      announcement.nonce = JUndefined\<rparr>"

text \<open>The example room after a second player has joined, and the empty tables of the
  rate limiter.\<close>

definition example_joined_room :: room where
  "example_joined_room =
     create_room 1000 ((example_announcement ''r1'')\<lparr>announcement.player2Name := JStr ''Player2''\<rparr>)"

definition example_limiter :: limiter_state where
  "example_limiter = \<lparr>rateLimitMap = [], blockedIPs = []\<rparr>"

section \<open>Facts about the tables and the stable sort\<close>

lemma map_of_map_set: "map_of (map_set k v m) k' = (if k' = k then Some v else map_of m k')"
  by (induction m) auto

lemma map_of_map_delete: "map_of (map_delete k m) k' = (if k' = k then None else map_of m k')"
  by (induction m) (auto simp: map_delete_def)

lemma map_has_iff: "map_has k m \<longleftrightarrow> map_of m k \<noteq> None"
  by (induction m) (auto simp: map_has_def)

lemma length_map_set: "length (map_set k v m) = (if map_has k m then length m else Suc (length m))"
  by (induction m) (auto simp: map_has_def)

lemma map_set_absent: "\<not> map_has k m \<Longrightarrow> map_set k v m = m @ [(k, v)]"
  by (induction m) (auto simp: map_has_def)

lemma length_map_delete_less: "map_has k m \<Longrightarrow> length (map_delete k m) < length m"
  unfolding map_delete_def map_has_def
  by (auto intro: length_filter_less)

lemma sort_key_ne: "xs \<noteq> [] \<Longrightarrow> sort_key f xs \<noteq> []"
  by (metis length_0_conv length_sort)

lemma hd_sort_key_in: "xs \<noteq> [] \<Longrightarrow> hd (sort_key f xs) \<in> set xs"
  by (metis hd_in_set set_sort sort_key_ne)

lemma sorted_hd_le: "sorted (map f ys) \<Longrightarrow> y \<in> set ys \<Longrightarrow> f (hd ys) \<le> f y"
  by (cases ys) auto

lemma hd_insort_key: "hd (insort_key f x ys) = (if ys = [] \<or> f x \<le> f (hd ys) then x else hd ys)"
  by (cases ys) auto

lemma hd_sort_key_snoc:
  "xs \<noteq> [] \<Longrightarrow> \<exists>y\<in>set xs. f y \<le> f x \<Longrightarrow> hd (sort_key f (xs @ [x])) \<in> set xs"
proof (induction xs)
  case Nil
  then show ?case by simp
next
  case (Cons a xs)
  show ?case
  proof (cases "xs = []")
    case True
    with Cons.prems show ?thesis by (auto simp: sort_key_def)
  next
    case False
    have ne: "sort_key f (xs @ [x]) \<noteq> []" by (rule sort_key_ne) simp
    have eq: "sort_key f ((a # xs) @ [x]) = insort_key f a (sort_key f (xs @ [x]))"
      by (simp add: sort_key_def)
    show ?thesis
    proof (cases "f a \<le> f (hd (sort_key f (xs @ [x])))")
      case True
      then show ?thesis unfolding eq hd_insort_key by simp
    next
      case na: False
      then have h: "hd (sort_key f ((a # xs) @ [x])) = hd (sort_key f (xs @ [x]))"
        unfolding eq hd_insort_key using ne by simp
      have "hd (sort_key f (xs @ [x])) \<in> set (xs @ [x])" using hd_sort_key_in[of "xs @ [x]" f] by simp
      then consider "hd (sort_key f (xs @ [x])) \<in> set xs" | "hd (sort_key f (xs @ [x])) = x" by auto
      then show ?thesis
      proof cases
        case 1
        then show ?thesis using h by simp
      next
        case 2
        have "\<forall>y\<in>set (sort_key f (xs @ [x])). f (hd (sort_key f (xs @ [x]))) \<le> f y"
          using sorted_hd_le[OF sorted_sort_key[of f "xs @ [x]"]] by blast
        then have all: "\<forall>y\<in>set xs. f x \<le> f y" using 2 by simp
        from Cons.prems(2) obtain y where y: "y \<in> set (a # xs)" "f y \<le> f x" by blast
        show ?thesis
        proof (cases "y = a")
          case True
          with y na 2 show ?thesis by simp
        next
          case False
          with y have "y \<in> set xs" by simp
          with Cons.IH[OF \<open>xs \<noteq> []\<close>] y have "hd (sort_key f (xs @ [x])) \<in> set xs" by blast
          then show ?thesis using h by simp
        qed
      qed
    qed
  qed
qed

section \<open>Properties of the replay guard\<close>

text \<open>
  C9. A request that carries a nonce (a truthy \<open>data.nonce\<close>; a falsy one is a request
  without a nonce and skips the check): when the nonce is not recorded, the nonce block
  adds no error to those of the fields and the nonce is recorded afterwards; when it is
  recorded, the error \<open>Duplicate nonce\<close> is pushed and the set is unchanged. Below
  \<open>MAX_NONCES\<close> the nonce is appended; at \<open>MAX_NONCES\<close> or more the first (oldest)
  element is removed and the nonce is appended, so the capacity never blocks the
  recording of a fresh nonce.
\<close>

theorem replay_guard:
  assumes "truthy (announcement.nonce data)"
  shows "(announcement.nonce data \<notin> set used \<longrightarrow>
            fst (validateAnnouncement cfg now data used timers) = field_errors cfg now data
          \<and> announcement.nonce data \<in> set (fst (snd (validateAnnouncement cfg now data used timers)))
          \<and> (length used < MAX_NONCES \<longrightarrow>
               fst (snd (validateAnnouncement cfg now data used timers)) = used @ [announcement.nonce data])
          \<and> (length used \<ge> MAX_NONCES \<and> distinct used \<longrightarrow>
               fst (snd (validateAnnouncement cfg now data used timers)) = tl used @ [announcement.nonce data]
               \<and> used \<noteq> []))
       \<and> (announcement.nonce data \<in> set used \<longrightarrow>
            fst (validateAnnouncement cfg now data used timers)
              = field_errors cfg now data @ [''Duplicate nonce (replay attack detected)'']
          \<and> fst (snd (validateAnnouncement cfg now data used timers)) = used)"
proof -
  let ?n = "announcement.nonce data"
  have cap: "fst (snd (nonce_check now ?n used timers)) = tl used @ [?n] \<and> used \<noteq> []"
    if "?n \<notin> set used" "length used \<ge> MAX_NONCES" "distinct used"
  proof (cases used)
    case Nil
    with that show ?thesis by (simp add: MAX_NONCES_def)
  next
    case (Cons x xs)
    with that have "filter (\<lambda>y. y \<noteq> x) xs = xs" by (auto intro: filter_True)
    with Cons that assms show ?thesis
      by (auto simp: nonce_check_def set_add_def set_delete_def Let_def)
  qed
  show ?thesis using assms cap
    by (auto simp: validateAnnouncement_def nonce_check_def set_add_def Let_def)
qed

theorem replay_guard_witness:
  "truthy (JStr ''n1'')
   \<and> JStr ''n1'' \<notin> set [JStr ''n0''] \<and> length [JStr ''n0''] < MAX_NONCES
   \<and> fst (snd (validateAnnouncement example_config 1000
         ((example_announcement ''r1'')\<lparr>announcement.nonce := JStr ''n1''\<rparr>) [JStr ''n0''] []))
       = [JStr ''n0'', JStr ''n1'']
   \<and> JStr ''n1'' \<in> set [JStr ''n0'', JStr ''n1'']
   \<and> fst (validateAnnouncement example_config 1000
         ((example_announcement ''r1'')\<lparr>announcement.nonce := JStr ''n1''\<rparr>) [JStr ''n0'', JStr ''n1''] [])
       = [''Duplicate nonce (replay attack detected)'']
   \<and> JStr ''n1'' \<notin> set (map JNum [1..5000])
   \<and> length (map JNum [1..5000]) \<ge> MAX_NONCES \<and> distinct (map JNum [1..5000])
   \<and> fst (snd (validateAnnouncement example_config 1000
         ((example_announcement ''r1'')\<lparr>announcement.nonce := JStr ''n1''\<rparr>) (map JNum [1..5000]) []))
       = tl (map JNum [1..5000]) @ [JStr ''n1'']"
proof -
  let ?d = "(example_announcement ''r1'')\<lparr>announcement.nonce := JStr ''n1''\<rparr>"
  have n: "announcement.nonce ?d = JStr ''n1''" by simp
  have ok: "field_errors example_config 1000 ?d = []" by code_simp
  have d: "distinct (map JNum [1..5000])" by (simp add: distinct_map inj_on_def)
  have m: "JStr ''n1'' \<notin> set (map JNum [1..5000])" by auto
  have l: "length (map JNum [1..5000]) \<ge> MAX_NONCES" by (simp add: MAX_NONCES_def)
  show ?thesis
    using replay_guard [of ?d "[JStr ''n0'']" example_config 1000 "[]"]
          replay_guard [of ?d "[JStr ''n0'', JStr ''n1'']" example_config 1000 "[]"]
          replay_guard [of ?d "map JNum [1..5000]" example_config 1000 "[]"]
          d m l
    unfolding n ok by (simp add: MAX_NONCES_def)
qed

text \<open>
  C10. For an announcement with a fresh nonce, the nonce is in \<open>usedNonces\<close> after
  \<open>POST /announce\<close> whatever the answer is; when a field is invalid the answer is the
  400 with the errors of the fields; any 400 leaves \<open>rooms\<close> as it was; and the same
  body posted again on the state that results is answered 400 with
  \<open>Duplicate nonce\<close> last, again with \<open>rooms\<close> unchanged.
\<close>

theorem post_announce_records_nonce:
  assumes "truthy (announcement.nonce data)"
      and "announcement.nonce data \<notin> set (usedNonces reg)"
  shows "announcement.nonce data \<in> set (usedNonces (snd (post_announce cfg now data reg)))
       \<and> (field_errors cfg now data \<noteq> [] \<longrightarrow>
            fst (post_announce cfg now data reg) = BadRequest (field_errors cfg now data))
       \<and> (\<forall>errors. fst (post_announce cfg now data reg) = BadRequest errors \<longrightarrow>
            rooms (snd (post_announce cfg now data reg)) = rooms reg)
       \<and> (\<forall>now'. fst (post_announce cfg now' data (snd (post_announce cfg now data reg)))
                   = BadRequest (field_errors cfg now' data @ [''Duplicate nonce (replay attack detected)''])
                 \<and> rooms (snd (post_announce cfg now' data (snd (post_announce cfg now data reg))))
                   = rooms (snd (post_announce cfg now data reg)))"
proof -
  let ?n = "announcement.nonce data"
  let ?r = "post_announce cfg now data reg"
  have nc: "?n \<in> set (fst (snd (nonce_check now ?n (usedNonces reg) (nonceTimers reg))))"
    using assms by (simp add: nonce_check_def set_add_def Let_def)
  have used: "usedNonces (snd ?r) = fst (snd (nonce_check now ?n (usedNonces reg) (nonceTimers reg)))"
    by (simp add: post_announce_def validateAnnouncement_def Let_def split: option.splits)
  have mem: "?n \<in> set (usedNonces (snd ?r))" using nc used by simp
  have rej: "fst ?r = BadRequest (field_errors cfg now data)" if "field_errors cfg now data \<noteq> []"
    using that assms by (simp add: post_announce_def validateAnnouncement_def nonce_check_def Let_def)
  have frame: "rooms (snd (post_announce cfg t data g)) = rooms g"
    if "fst (post_announce cfg t data g) = BadRequest errors" for errors t g
    using that by (simp add: post_announce_def Let_def split: if_splits option.splits)
  have dup: "fst (post_announce cfg t data g)
               = BadRequest (field_errors cfg t data @ [''Duplicate nonce (replay attack detected)''])"
    if "?n \<in> set (usedNonces g)" for t g
    using that assms(1) by (simp add: post_announce_def validateAnnouncement_def nonce_check_def Let_def)
  show ?thesis using mem rej frame dup by blast
qed

theorem post_announce_records_nonce_witness:
  "truthy (JStr ''n1'') \<and> JStr ''n1'' \<notin> set (usedNonces \<lparr>rooms = [], usedNonces = [], nonceTimers = []\<rparr>)
   \<and> field_errors example_config 1000
        ((example_announcement ''r1'')\<lparr>announcement.status := JStr ''bogus'', announcement.nonce := JStr ''n1''\<rparr>) \<noteq> []
   \<and> post_announce example_config 1000
        ((example_announcement ''r1'')\<lparr>announcement.status := JStr ''bogus'', announcement.nonce := JStr ''n1''\<rparr>)
        \<lparr>rooms = [], usedNonces = [], nonceTimers = []\<rparr>
      = (BadRequest [''Invalid status. Must be one of: waiting, active, finished, cancelled''],
         \<lparr>rooms = [], usedNonces = [JStr ''n1''], nonceTimers = [(JStr ''n1'', 301000)]\<rparr>)
   \<and> fst (post_announce example_config 2000
        ((example_announcement ''r1'')\<lparr>announcement.status := JStr ''bogus'', announcement.nonce := JStr ''n1''\<rparr>)
        \<lparr>rooms = [], usedNonces = [JStr ''n1''], nonceTimers = [(JStr ''n1'', 301000)]\<rparr>)
      = BadRequest [''Invalid status. Must be one of: waiting, active, finished, cancelled'',
                    ''Duplicate nonce (replay attack detected)'']"
proof -
  let ?d = "(example_announcement ''r1'')\<lparr>announcement.status := JStr ''bogus'', announcement.nonce := JStr ''n1''\<rparr>"
  let ?g = "\<lparr>rooms = [], usedNonces = [], nonceTimers = []\<rparr>"
  have n: "announcement.nonce ?d = JStr ''n1''" by simp
  have e: "field_errors example_config t ?d
            = [''Invalid status. Must be one of: waiting, active, finished, cancelled'']" for t
    by (simp add: field_errors_def example_config_def example_announcement_def Let_def
      MAX_ROOM_ID_LENGTH_def MAX_NAME_LENGTH_def roomId_pattern_def roomId_char_def
      validGameTypes_def validStatuses_def toLowerCase_def lower_char_def trim_def js_space_def startsWith_def)
  have p: "post_announce example_config 1000 ?d ?g
      = (BadRequest [''Invalid status. Must be one of: waiting, active, finished, cancelled''],
         \<lparr>rooms = [], usedNonces = [JStr ''n1''], nonceTimers = [(JStr ''n1'', 301000)]\<rparr>)"
    unfolding post_announce_def validateAnnouncement_def Let_def e n
    by (simp add: nonce_check_def set_add_def MAX_NONCES_def NONCE_CLEANUP_INTERVAL_def)
  show ?thesis
    using post_announce_records_nonce [of ?d ?g example_config 1000]
    unfolding n e p by simp
qed

section \<open>Properties of the rate limiter and the block store\<close>

lemma isIPBlocked_None:
  "isIPBlocked cfg now ip bl = (None, bl') \<Longrightarrow> map_of bl' ip = None"
  by (auto simp: isIPBlocked_def map_of_map_delete split: if_splits option.splits)

lemma isIPBlocked_absent:
  "ip \<notin> set (BLOCKED_IPS cfg) \<Longrightarrow> map_of bl ip = None \<Longrightarrow> isIPBlocked cfg now ip bl = (None, bl)"
  by (simp add: isIPBlocked_def)

lemma enforce_cap_small: "length rl \<le> MAX_RATE_LIMIT_ENTRIES \<Longrightarrow> enforce_rate_limit_cap rl = rl"
  by (simp add: enforce_rate_limit_cap_def)

lemma write_entry_present: "map_of rl ip = Some d \<Longrightarrow> write_entry ip d' rl = map_set ip d' rl"
  by (simp add: write_entry_def map_has_iff)

text \<open>A request inside the window of an entry the map holds.\<close>

lemma rateLimit_in_window:
  assumes en: "\<not> DISABLE_RATE_LIMIT cfg" and nl: "\<not> is_localhost ip"
      and ub: "isIPBlocked cfg now ip (blockedIPs st) = (None, bl)"
      and e: "map_of (rateLimitMap st) ip = Some d" and w: "now \<le> resetTime d"
      and len: "length (rateLimitMap st) \<le> MAX_RATE_LIMIT_ENTRIES"
  shows "rateLimit cfg now ip True st =
           (if announceCount d + 1 > RATE_LIMIT_MAX_ANNOUNCES cfg
            then (RateLimited (ceil_seconds (resetTime d - now)),
                  \<lparr>rateLimitMap = map_set ip (d\<lparr>announceCount := announceCount d + 1, violations := violations d + 1\<rparr>) (rateLimitMap st),
                   blockedIPs = (if violations d + 1 \<ge> MAX_VIOLATIONS cfg
                                 then blockIP now ip ''Excessive announce attempts'' (BLOCK_DURATION cfg) bl else bl)\<rparr>)
            else (Next, \<lparr>rateLimitMap = map_set ip (d\<lparr>announceCount := announceCount d + 1\<rparr>) (rateLimitMap st),
                         blockedIPs = bl\<rparr>))"
    and "rateLimit cfg now ip False st =
           (if count d + 1 > RATE_LIMIT_MAX_REQUESTS cfg
            then (RateLimited (ceil_seconds (resetTime d - now)),
                  \<lparr>rateLimitMap = map_set ip (d\<lparr>count := count d + 1, violations := violations d + 1\<rparr>) (rateLimitMap st),
                   blockedIPs = (if violations d + 1 \<ge> MAX_VIOLATIONS cfg
                                 then blockIP now ip ''Excessive requests'' (BLOCK_DURATION cfg) bl else bl)\<rparr>)
            else (Next, \<lparr>rateLimitMap = map_set ip (d\<lparr>count := count d + 1\<rparr>) (rateLimitMap st),
                         blockedIPs = bl\<rparr>))"
  using assms
  by (simp_all add: rateLimit_def Let_def enforce_cap_small write_entry_present)


text \<open>The hard limit after the entry of a new window was stored.\<close>

lemma cap_at_window_start:
  assumes start: "case map_of rl ip of None \<Rightarrow> True | Some d \<Rightarrow> now > resetTime d"
      and len: "length rl \<le> MAX_RATE_LIMIT_ENTRIES"
      and old: "length rl = MAX_RATE_LIMIT_ENTRIES \<and> map_of rl ip = None
                  \<longrightarrow> (\<exists>e\<in>set rl. resetTime (snd e) \<le> now + RATE_LIMIT_WINDOW)"
  shows "map_of (enforce_rate_limit_cap (map_set ip (new_rate_entry now) rl)) ip = Some (new_rate_entry now)
       \<and> length (enforce_rate_limit_cap (map_set ip (new_rate_entry now) rl)) \<le> MAX_RATE_LIMIT_ENTRIES"
proof (cases "length (map_set ip (new_rate_entry now) rl) \<le> MAX_RATE_LIMIT_ENTRIES")
  case True
  then show ?thesis by (simp add: enforce_cap_small map_of_map_set)
next
  case False
  let ?x = "(ip, new_rate_entry now)"
  let ?f = "\<lambda>e :: string \<times> rate_entry. resetTime (snd e)"
  from False len have abs: "\<not> map_has ip rl" and full: "length rl = MAX_RATE_LIMIT_ENTRIES"
    by (auto simp: length_map_set split: if_splits)
  then have none: "map_of rl ip = None" by (simp add: map_has_iff)
  have rl1: "map_set ip (new_rate_entry now) rl = rl @ [?x]" using abs by (rule map_set_absent)
  have ne: "rl \<noteq> []" using full by (auto simp: MAX_RATE_LIMIT_ENTRIES_def)
  from old full none obtain y where "y \<in> set rl" "?f y \<le> ?f ?x"
    by (auto simp: new_rate_entry_def)
  then have hd_in: "hd (sort_key ?f (rl @ [?x])) \<in> set rl"
    using hd_sort_key_snoc[OF ne, of ?f ?x] by blast
  let ?h = "hd (sort_key ?f (rl @ [?x]))"
  have sne: "sort_key ?f (rl @ [?x]) \<noteq> []" by (rule sort_key_ne) simp
  have tk: "take 1 (sort_key ?f (rl @ [?x])) = [?h]"
    using sne by (cases "sort_key ?f (rl @ [?x])") auto
  have enf: "enforce_rate_limit_cap (rl @ [?x]) = map_delete (fst ?h) (rl @ [?x])"
    using full tk by (simp add: enforce_rate_limit_cap_def Let_def)
  have key: "fst ?h \<noteq> ip" using hd_in abs unfolding map_has_def by (metis imageI list.set_map)
  have has: "map_has (fst ?h) (rl @ [?x])" using hd_in by (auto simp: map_has_def)
  have "length (map_delete (fst ?h) (rl @ [?x])) < length (rl @ [?x])"
    using has by (rule length_map_delete_less)
  then have l: "length (map_delete (fst ?h) (rl @ [?x])) \<le> MAX_RATE_LIMIT_ENTRIES"
    using full by simp
  have m: "map_of (map_delete (fst ?h) (rl @ [?x])) ip = Some (new_rate_entry now)"
    using key none by (simp add: map_of_map_delete map_add_def)
  show ?thesis unfolding rl1 enf using l m by simp
qed

text \<open>The first request of a window: no entry, or an entry whose window has passed.\<close>

lemma rateLimit_window_start:
  assumes en: "\<not> DISABLE_RATE_LIMIT cfg" and nl: "\<not> is_localhost ip"
      and ub: "isIPBlocked cfg now ip (blockedIPs st) = (None, bl)"
      and start: "case map_of (rateLimitMap st) ip of None \<Rightarrow> True | Some d \<Rightarrow> now > resetTime d"
      and len: "length (rateLimitMap st) \<le> MAX_RATE_LIMIT_ENTRIES"
      and old: "length (rateLimitMap st) = MAX_RATE_LIMIT_ENTRIES \<and> map_of (rateLimitMap st) ip = None
                  \<longrightarrow> (\<exists>e\<in>set (rateLimitMap st). resetTime (snd e) \<le> now + RATE_LIMIT_WINDOW)"
      and thr: "thr = (if isPost then RATE_LIMIT_MAX_ANNOUNCES cfg else RATE_LIMIT_MAX_REQUESTS cfg)"
  shows "fst (rateLimit cfg now ip isPost st)
           = (if 1 > thr then RateLimited (ceil_seconds RATE_LIMIT_WINDOW) else Next)"
    and "1 \<le> thr \<Longrightarrow> blockedIPs (snd (rateLimit cfg now ip isPost st)) = bl"
    and "length (rateLimitMap (snd (rateLimit cfg now ip isPost st))) \<le> MAX_RATE_LIMIT_ENTRIES"
    and "\<exists>d. map_of (rateLimitMap (snd (rateLimit cfg now ip isPost st))) ip = Some d
            \<and> resetTime d = now + RATE_LIMIT_WINDOW
            \<and> (if isPost then announceCount d = 1 \<and> count d = 0 else count d = 1 \<and> announceCount d = 0)"
proof -
  let ?rl2 = "enforce_rate_limit_cap (map_set ip (new_rate_entry now) (rateLimitMap st))"
  have kept: "(case map_of (rateLimitMap st) ip of None \<Rightarrow> None
               | Some d \<Rightarrow> if now > resetTime d then None else Some d) = None"
    using start by (auto split: option.splits)
  from cap_at_window_start[OF start len old]
  have m: "map_of ?rl2 ip = Some (new_rate_entry now)" and l: "length ?rl2 \<le> MAX_RATE_LIMIT_ENTRIES"
    by simp_all
  have w: "write_entry ip d' ?rl2 = map_set ip d' ?rl2" for d'
    using m by (rule write_entry_present)
  have r: "rateLimit cfg now ip isPost st =
     (if isPost then
                  let d1 = (new_rate_entry now)\<lparr>announceCount := announceCount (new_rate_entry now) + 1\<rparr>
                  in if announceCount d1 > RATE_LIMIT_MAX_ANNOUNCES cfg then
                       let d2 = d1\<lparr>violations := violations d1 + 1\<rparr>;
                           bl2 = (if violations d2 \<ge> MAX_VIOLATIONS cfg
                                  then blockIP now ip ''Excessive announce attempts'' (BLOCK_DURATION cfg) bl
                                  else bl)
                       in (RateLimited (ceil_seconds (resetTime d2 - now)),
                           \<lparr>rateLimitMap = map_set ip d2 ?rl2, blockedIPs = bl2\<rparr>)
                     else (Next, \<lparr>rateLimitMap = map_set ip d1 ?rl2, blockedIPs = bl\<rparr>)
                else
                  let d1 = (new_rate_entry now)\<lparr>count := count (new_rate_entry now) + 1\<rparr>
                  in if count d1 > RATE_LIMIT_MAX_REQUESTS cfg then
                       let d2 = d1\<lparr>violations := violations d1 + 1\<rparr>;
                           bl2 = (if violations d2 \<ge> MAX_VIOLATIONS cfg
                                  then blockIP now ip ''Excessive requests'' (BLOCK_DURATION cfg) bl
                                  else bl)
                       in (RateLimited (ceil_seconds (resetTime d2 - now)),
                           \<lparr>rateLimitMap = map_set ip d2 ?rl2, blockedIPs = bl2\<rparr>)
                     else (Next, \<lparr>rateLimitMap = map_set ip d1 ?rl2, blockedIPs = bl\<rparr>))"
    using en nl ub unfolding rateLimit_def kept by (simp add: Let_def w)
  have hs: "map_has ip ?rl2" using m by (simp add: map_has_iff)
  show "fst (rateLimit cfg now ip isPost st)
           = (if 1 > thr then RateLimited (ceil_seconds RATE_LIMIT_WINDOW) else Next)"
    unfolding r thr by (simp add: Let_def new_rate_entry_def)
  show "1 \<le> thr \<Longrightarrow> blockedIPs (snd (rateLimit cfg now ip isPost st)) = bl"
    unfolding r thr by (auto simp: Let_def new_rate_entry_def)
  show "length (rateLimitMap (snd (rateLimit cfg now ip isPost st))) \<le> MAX_RATE_LIMIT_ENTRIES"
    unfolding r using l hs by (simp add: Let_def length_map_set)
  show "\<exists>d. map_of (rateLimitMap (snd (rateLimit cfg now ip isPost st))) ip = Some d
            \<and> resetTime d = now + RATE_LIMIT_WINDOW
            \<and> (if isPost then announceCount d = 1 \<and> count d = 0 else count d = 1 \<and> announceCount d = 0)"
    unfolding r by (simp add: Let_def map_of_map_set new_rate_entry_def)
qed


text \<open>Requests of one kind inside a window, from a count \<open>c\<close> up to the threshold.\<close>

lemma rateLimit_requests_in_window:
  assumes en: "\<not> DISABLE_RATE_LIMIT cfg" and nl: "\<not> is_localhost ip"
      and np: "ip \<notin> set (BLOCKED_IPS cfg)"
      and thr: "thr = (if isPost then RATE_LIMIT_MAX_ANNOUNCES cfg else RATE_LIMIT_MAX_REQUESTS cfg)"
  shows "map_of (blockedIPs st) ip = None \<Longrightarrow> map_of (rateLimitMap st) ip = Some d
     \<Longrightarrow> length (rateLimitMap st) \<le> MAX_RATE_LIMIT_ENTRIES
     \<Longrightarrow> \<forall>t\<in>set ts. t \<le> resetTime d
     \<Longrightarrow> (if isPost then announceCount d else count d) \<le> thr
     \<Longrightarrow> length ts = nat (thr - (if isPost then announceCount d else count d)) + 1
     \<Longrightarrow> fst (rateLimit_requests cfg ip isPost ts st)
           = replicate (nat (thr - (if isPost then announceCount d else count d))) Next
             @ [RateLimited (ceil_seconds (resetTime d - last ts))]"
proof (induction ts arbitrary: st d)
  case Nil
  then show ?case by simp
next
  case (Cons t ts)
  let ?c = "if isPost then announceCount d else count d"
  have ub: "isIPBlocked cfg t ip (blockedIPs st) = (None, blockedIPs st)"
    using np Cons.prems(1) by (rule isIPBlocked_absent)
  have tw: "t \<le> resetTime d" using Cons.prems(4) by simp
  note step = rateLimit_in_window[OF en nl ub Cons.prems(2) tw Cons.prems(3)]
  show ?case
  proof (cases "?c = thr")
    case True
    with Cons.prems(6) have ts: "ts = []" by simp
    show ?thesis using True thr step unfolding ts
      by (cases isPost) (simp_all add: Let_def)
  next
    case False
    with Cons.prems(5) have lt: "?c < thr" by simp
    let ?d' = "if isPost then d\<lparr>announceCount := announceCount d + 1\<rparr> else d\<lparr>count := count d + 1\<rparr>"
    let ?st' = "\<lparr>rateLimitMap = map_set ip ?d' (rateLimitMap st), blockedIPs = blockedIPs st\<rparr>"
    have r: "rateLimit cfg t ip isPost st = (Next, ?st')"
      using lt thr step by (cases isPost) simp_all
    have c': "(if isPost then announceCount ?d' else count ?d') = ?c + 1" by simp
    have n: "nat (thr - ?c) = Suc (nat (thr - (?c + 1)))" using lt by simp
    have ne: "ts \<noteq> []" using Cons.prems(6) lt by auto
    have p1: "map_of (blockedIPs ?st') ip = None" using Cons.prems(1) by simp
    have p2: "map_of (rateLimitMap ?st') ip = Some ?d'" by (simp add: map_of_map_set)
    have p3: "length (rateLimitMap ?st') \<le> MAX_RATE_LIMIT_ENTRIES"
      using Cons.prems(2,3) by (simp add: length_map_set map_has_iff)
    have p4: "\<forall>t\<in>set ts. t \<le> resetTime ?d'" using Cons.prems(4) by simp
    have p5: "(if isPost then announceCount ?d' else count ?d') \<le> thr" using lt by (cases isPost) simp_all
    have p6: "length ts = nat (thr - (if isPost then announceCount ?d' else count ?d')) + 1"
      using Cons.prems(6) lt unfolding c' by simp
    have ih: "fst (rateLimit_requests cfg ip isPost ts ?st')
           = replicate (nat (thr - (?c + 1))) Next @ [RateLimited (ceil_seconds (resetTime d - last ts))]"
      using Cons.IH[OF p1 p2 p3 p4 p5 p6] unfolding c' by simp
    show ?thesis
      using ih ne unfolding n by (simp add: r Let_def)
  qed
qed


text \<open>
  C7. An identity that is not local and not blocked starts a window at \<open>t0\<close> (it has no
  entry, or its entry's window has passed, whatever that entry counted) and sends
  \<open>threshold + 1\<close> requests of one kind, all no later than the end of the window
  \<open>t0 + RATE_LIMIT_WINDOW\<close>: the first \<open>threshold\<close> are passed on and the next one is
  answered 429 with the seconds left until the window ends, rounded up. The threshold is
  \<open>RATE_LIMIT_MAX_ANNOUNCES\<close> for POST and \<open>RATE_LIMIT_MAX_REQUESTS\<close> otherwise. The
  table is within its hard limit, and when it is full and the identity is new, some
  entry is at least as old as the new one (so the hard limit evicts another entry).
\<close>

theorem rateLimit_threshold:
  assumes "\<not> DISABLE_RATE_LIMIT cfg" and "\<not> is_localhost ip"
      and "ip \<notin> set (BLOCKED_IPS cfg)"
      and "case map_of (blockedIPs st) ip of None \<Rightarrow> True | Some b \<Rightarrow> blockedUntil b \<le> t0"
      and "case map_of (rateLimitMap st) ip of None \<Rightarrow> True | Some d \<Rightarrow> t0 > resetTime d"
      and "length (rateLimitMap st) \<le> MAX_RATE_LIMIT_ENTRIES"
      and "length (rateLimitMap st) = MAX_RATE_LIMIT_ENTRIES \<and> map_of (rateLimitMap st) ip = None
             \<longrightarrow> (\<exists>e\<in>set (rateLimitMap st). resetTime (snd e) \<le> t0 + RATE_LIMIT_WINDOW)"
      and "thr = (if isPost then RATE_LIMIT_MAX_ANNOUNCES cfg else RATE_LIMIT_MAX_REQUESTS cfg)"
      and "0 \<le> thr"
      and "\<forall>t\<in>set ts. t \<le> t0 + RATE_LIMIT_WINDOW"
      and "length ts = nat thr"
  shows "fst (rateLimit_requests cfg ip isPost (t0 # ts) st)
           = replicate (nat thr) Next
             @ [RateLimited (ceil_seconds (t0 + RATE_LIMIT_WINDOW - last (t0 # ts)))]"
proof -
  obtain bl where ub: "isIPBlocked cfg t0 ip (blockedIPs st) = (None, bl)"
    using assms(3,4) by (auto simp: isIPBlocked_def split: option.splits)
  note first = rateLimit_window_start[OF assms(1,2) ub assms(5,6,7,8)]
  show ?thesis
  proof (cases "thr = 0")
    case True
    with assms(11) have "ts = []" by simp
    with True first(1) show ?thesis by (simp add: Let_def)
  next
    case False
    with assms(9) have pos: "1 \<le> thr" by simp
    let ?st' = "snd (rateLimit cfg t0 ip isPost st)"
    from first(4) obtain d where d: "map_of (rateLimitMap ?st') ip = Some d"
      "resetTime d = t0 + RATE_LIMIT_WINDOW"
      "(if isPost then announceCount d else count d) = 1"
      by (auto split: if_splits)
    have nb: "map_of (blockedIPs ?st') ip = None"
      using first(2)[OF pos] isIPBlocked_None[OF ub] by simp
    have tw: "\<forall>t\<in>set ts. t \<le> resetTime d" using assms(10) d(2) by simp
    have c: "(if isPost then announceCount d else count d) \<le> thr" using d(3) pos by simp
    have l: "length ts = nat (thr - (if isPost then announceCount d else count d)) + 1"
      using assms(11) pos unfolding d(3) by simp
    have rest: "fst (rateLimit_requests cfg ip isPost ts ?st')
           = replicate (nat (thr - 1)) Next @ [RateLimited (ceil_seconds (t0 + RATE_LIMIT_WINDOW - last ts))]"
      using rateLimit_requests_in_window[OF assms(1,2,3,8) nb d(1) first(3) tw c l]
      unfolding d(2,3) by simp
    have ne: "ts \<noteq> []" using assms(11) pos by auto
    have n: "nat thr = Suc (nat (thr - 1))" using pos by simp
    have f: "fst (rateLimit cfg t0 ip isPost st) = Next" using first(1) pos by simp
    show ?thesis using rest ne f unfolding n by (simp add: Let_def)
  qed
qed

theorem rateLimit_threshold_witness:
  "fst (rateLimit_requests example_config ''203.0.113.7'' True (1000 # replicate 20 2000)
         \<lparr>rateLimitMap = [(''203.0.113.7'', \<lparr>count = 5, announceCount = 25, resetTime = 900, violations = 3\<rparr>)],
          blockedIPs = []\<rparr>)
     = replicate 20 Next @ [RateLimited 59]
   \<and> fst (rateLimit_requests example_config ''203.0.113.7'' False (1000 # replicate 120 61000)
         \<lparr>rateLimitMap = [], blockedIPs = []\<rparr>)
     = replicate 120 Next @ [RateLimited 0]"
proof -
  let ?st = "\<lparr>rateLimitMap = [(''203.0.113.7'', \<lparr>count = 5, announceCount = 25, resetTime = 900, violations = 3\<rparr>)],
          blockedIPs = []\<rparr>"
  have 1: "\<not> DISABLE_RATE_LIMIT example_config" "ip \<notin> set (BLOCKED_IPS example_config)" for ip
    by (simp_all add: example_config_def)
  have 2: "\<not> is_localhost ''203.0.113.7''" by (simp add: is_localhost_def)
  have t: "RATE_LIMIT_MAX_ANNOUNCES example_config = 20" "RATE_LIMIT_MAX_REQUESTS example_config = 120"
    by (simp_all add: example_config_def)
  have c: "ceil_seconds (1000 + RATE_LIMIT_WINDOW - 2000) = 59" "ceil_seconds (1000 + RATE_LIMIT_WINDOW - 61000) = 0"
    by (simp_all add: ceil_seconds_def RATE_LIMIT_WINDOW_def)
  have a: "fst (rateLimit_requests example_config ''203.0.113.7'' True (1000 # replicate 20 2000) ?st)
     = replicate 20 Next @ [RateLimited 59]"
    using rateLimit_threshold [where cfg = example_config and ip = "''203.0.113.7''" and st = ?st
            and ?t0.0 = 1000 and thr = 20 and isPost = True and ts = "replicate 20 2000"] 1 2 t c
    by (simp add: MAX_RATE_LIMIT_ENTRIES_def RATE_LIMIT_WINDOW_def)
  have b: "fst (rateLimit_requests example_config ''203.0.113.7'' False (1000 # replicate 120 61000)
         \<lparr>rateLimitMap = [], blockedIPs = []\<rparr>)
     = replicate 120 Next @ [RateLimited 0]"
    using rateLimit_threshold [where cfg = example_config and ip = "''203.0.113.7''"
            and st = "\<lparr>rateLimitMap = [], blockedIPs = []\<rparr>"
            and ?t0.0 = 1000 and thr = 120 and isPost = False and ts = "replicate 120 61000"] 1 2 t c
    by (simp add: MAX_RATE_LIMIT_ENTRIES_def RATE_LIMIT_WINDOW_def)
  show ?thesis using a b by simp
qed

text \<open>The request of an identity that is not local and not blocked, over its threshold
  inside its window, that brings \<open>violations\<close> to \<open>MAX_VIOLATIONS\<close> or more: it is
  answered 429 and a block until \<open>now + BLOCK_DURATION\<close> is stored with the reason. Every
  request of the identity before that instant is answered 403 with the reason and
  changes nothing. From that instant on, \<open>isIPBlocked\<close> answers not blocked and deletes
  the entry, and the request is not answered 403.\<close>

lemma block_and_lazy_expiry:
  assumes en: "\<not> DISABLE_RATE_LIMIT cfg" and nl: "\<not> is_localhost ip"
      and np: "ip \<notin> set (BLOCKED_IPS cfg)"
      and nb: "case map_of (blockedIPs st) ip of None \<Rightarrow> True | Some b \<Rightarrow> blockedUntil b \<le> now"
      and e: "map_of (rateLimitMap st) ip = Some d" and w: "now \<le> resetTime d"
      and over: "if isPost then announceCount d \<ge> RATE_LIMIT_MAX_ANNOUNCES cfg
                 else count d \<ge> RATE_LIMIT_MAX_REQUESTS cfg"
      and viol: "violations d + 1 \<ge> MAX_VIOLATIONS cfg"
      and rsn: "rsn = (if isPost then ''Excessive announce attempts'' else ''Excessive requests'')"
      and st': "st' = snd (rateLimit cfg now ip isPost st)"
  shows "fst (rateLimit cfg now ip isPost st) = RateLimited (ceil_seconds (resetTime d - now))
       \<and> map_of (blockedIPs st') ip = Some \<lparr>blockedUntil = now + BLOCK_DURATION cfg, reason = rsn\<rparr>
       \<and> (\<forall>now' p. now' < now + BLOCK_DURATION cfg \<longrightarrow>
             rateLimit cfg now' ip p st' = (Blocked rsn, st'))
       \<and> (\<forall>now' p. now + BLOCK_DURATION cfg \<le> now' \<longrightarrow>
             isIPBlocked cfg now' ip (blockedIPs st') = (None, map_delete ip (blockedIPs st'))
           \<and> map_of (map_delete ip (blockedIPs st')) ip = None
           \<and> (\<forall>r. fst (rateLimit cfg now' ip p st') \<noteq> Blocked r))"
proof -
  obtain bl where ub: "isIPBlocked cfg now ip (blockedIPs st) = (None, bl)"
    using np nb by (auto simp: isIPBlocked_def split: option.splits)
  have kept: "(case map_of (rateLimitMap st) ip of None \<Rightarrow> None
               | Some d \<Rightarrow> if now > resetTime d then None else Some d) = Some d"
    using e w by simp
  have out: "fst (rateLimit cfg now ip isPost st) = RateLimited (ceil_seconds (resetTime d - now))"
    using en nl over unfolding rateLimit_def ub kept
    by (cases isPost) (simp_all add: Let_def)
  have blk: "blockedIPs st' = blockIP now ip rsn (BLOCK_DURATION cfg) bl"
    using en nl over viol unfolding st' rsn rateLimit_def ub kept
    by (cases isPost) (simp_all add: Let_def)
  have m: "map_of (blockedIPs st') ip = Some \<lparr>blockedUntil = now + BLOCK_DURATION cfg, reason = rsn\<rparr>"
    unfolding blk using nl by (simp add: blockIP_def map_of_map_set)
  have a: "rateLimit cfg now' ip p st' = (Blocked rsn, st')" if "now' < now + BLOCK_DURATION cfg" for now' p
    using that en nl np m by (simp add: rateLimit_def isIPBlocked_def)
  have b1: "isIPBlocked cfg now' ip (blockedIPs st') = (None, map_delete ip (blockedIPs st'))"
    if "now + BLOCK_DURATION cfg \<le> now'" for now'
    using that np m by (simp add: isIPBlocked_def)
  have b2: "fst (rateLimit cfg now' ip p st') \<noteq> Blocked r" if "now + BLOCK_DURATION cfg \<le> now'" for now' p r
    using en nl unfolding rateLimit_def b1[OF that]
    by (simp add: Let_def)
  show ?thesis using out m a b1 b2 by (simp add: map_of_map_delete)
qed

lemma block_and_lazy_expiry_example:
  "fst (rateLimit example_config 5000 ''203.0.113.7'' True
          \<lparr>rateLimitMap = [(''203.0.113.7'', \<lparr>count = 3, announceCount = 29, resetTime = 60000, violations = 9\<rparr>)],
           blockedIPs = []\<rparr>) = RateLimited 55
   \<and> map_of (blockedIPs (snd (rateLimit example_config 5000 ''203.0.113.7'' True
          \<lparr>rateLimitMap = [(''203.0.113.7'', \<lparr>count = 3, announceCount = 29, resetTime = 60000, violations = 9\<rparr>)],
           blockedIPs = []\<rparr>))) ''203.0.113.7''
     = Some \<lparr>blockedUntil = 305000, reason = ''Excessive announce attempts''\<rparr>
   \<and> fst (rateLimit example_config 304999 ''203.0.113.7'' False
          (snd (rateLimit example_config 5000 ''203.0.113.7'' True
          \<lparr>rateLimitMap = [(''203.0.113.7'', \<lparr>count = 3, announceCount = 29, resetTime = 60000, violations = 9\<rparr>)],
           blockedIPs = []\<rparr>))) = Blocked ''Excessive announce attempts''
   \<and> (\<forall>r. fst (rateLimit example_config 305000 ''203.0.113.7'' False
          (snd (rateLimit example_config 5000 ''203.0.113.7'' True
          \<lparr>rateLimitMap = [(''203.0.113.7'', \<lparr>count = 3, announceCount = 29, resetTime = 60000, violations = 9\<rparr>)],
           blockedIPs = []\<rparr>))) \<noteq> Blocked r)"
proof -
  let ?d = "\<lparr>count = 3, announceCount = 29, resetTime = 60000, violations = 9\<rparr>"
  let ?st = "\<lparr>rateLimitMap = [(''203.0.113.7'', ?d)], blockedIPs = []\<rparr>"
  have 1: "\<not> DISABLE_RATE_LIMIT example_config" "''203.0.113.7'' \<notin> set (BLOCKED_IPS example_config)"
    by (simp_all add: example_config_def)
  have 2: "\<not> is_localhost ''203.0.113.7''" by (simp add: is_localhost_def)
  have 3: "case map_of (blockedIPs ?st) ''203.0.113.7'' of None \<Rightarrow> True | Some b \<Rightarrow> blockedUntil b \<le> 5000"
    by simp
  have 4: "map_of (rateLimitMap ?st) ''203.0.113.7'' = Some ?d" "5000 \<le> resetTime ?d" by simp_all
  have 5: "if True then announceCount ?d \<ge> RATE_LIMIT_MAX_ANNOUNCES example_config
           else count ?d \<ge> RATE_LIMIT_MAX_REQUESTS example_config"
    "violations ?d + 1 \<ge> MAX_VIOLATIONS example_config"
    by (simp_all add: example_config_def)
  have c: "ceil_seconds (resetTime ?d - 5000) = 55" "BLOCK_DURATION example_config = 300000"
    by (simp_all add: ceil_seconds_def example_config_def)
  show ?thesis
    using block_and_lazy_expiry [OF 1(1) 2 1(2) 3 4 5 refl refl] unfolding c by simp
qed

text \<open>
  C8 (how the code behaves). With the defaults (20 announces in a window, a block at 10
  violations) one identity posts 29 times in each of three consecutive windows. Each
  window passes 20 requests on and answers 9 with 429, so the identity commits 27
  violations; no request is answered 403 and no block is stored, because every new
  window starts from \<open>violations: 0\<close>, and the entry ends with 9 violations. The same
  identity posting 31 times inside one window is blocked: the 30th request is the tenth
  violation and the 31st is answered 403 with the reason.
\<close>

theorem violations_across_windows_never_block:
  "fst (rateLimit_requests example_config ''203.0.113.7'' True
          (replicate 29 1000 @ replicate 29 62000 @ replicate 29 123000) example_limiter)
     = (replicate 20 Next @ replicate 9 (RateLimited 60))
       @ (replicate 20 Next @ replicate 9 (RateLimited 60))
       @ (replicate 20 Next @ replicate 9 (RateLimited 60))
   \<and> snd (rateLimit_requests example_config ''203.0.113.7'' True
          (replicate 29 1000 @ replicate 29 62000 @ replicate 29 123000) example_limiter)
     = \<lparr>rateLimitMap = [(''203.0.113.7'',
            \<lparr>count = 0, announceCount = 29, resetTime = 183000, violations = 9\<rparr>)],
        blockedIPs = []\<rparr>
   \<and> fst (rateLimit_requests example_config ''203.0.113.7'' True (replicate 31 1000) example_limiter)
     = replicate 20 Next @ replicate 10 (RateLimited 60) @ [Blocked ''Excessive announce attempts'']"
  by code_simp

text \<open>
  C3 (how the code behaves). An entry with three violations whose window ended at 61000:
  the request at 61001 stores a new entry, and its \<open>violations\<close> is 0; the periodic
  sweep at the same instant would have kept the entry with one violation less.
\<close>

theorem rollover_resets_violations:
  "rateLimit example_config 61001 ''203.0.113.7'' False
     \<lparr>rateLimitMap = [(''203.0.113.7'', \<lparr>count = 5, announceCount = 2, resetTime = 61000, violations = 3\<rparr>)],
      blockedIPs = []\<rparr>
   = (Next,
     \<lparr>rateLimitMap = [(''203.0.113.7'', \<lparr>count = 1, announceCount = 0, resetTime = 121001, violations = 0\<rparr>)],
      blockedIPs = []\<rparr>)
   \<and> rateLimitCleanup 61001
       [(''203.0.113.7'', \<lparr>count = 5, announceCount = 2, resetTime = 61000, violations = 3\<rparr>)]
     = [(''203.0.113.7'', \<lparr>count = 5, announceCount = 2, resetTime = 61000, violations = 2\<rparr>)]"
  by (simp add: rateLimit_def example_config_def is_localhost_def isIPBlocked_def Let_def
      new_rate_entry_def RATE_LIMIT_WINDOW_def enforce_rate_limit_cap_def MAX_RATE_LIMIT_ENTRIES_def
      write_entry_def map_has_def rateLimitCleanup_def)

section \<open>Properties of expiry and of the listing\<close>

lemma fold_delete_if:
  "fold (\<lambda>e m. if P e then map_delete (fst e) m else m) xs m
     = filter (\<lambda>e'. fst e' \<notin> fst ` {e \<in> set xs. P e}) m"
proof (induction xs arbitrary: m)
  case Nil
  then show ?case by simp
next
  case (Cons x xs)
  show ?case
  proof (cases "P x")
    case True
    have "{e \<in> set (x # xs). P e} = insert x {e \<in> set xs. P e}" using True by auto
    then show ?thesis using True Cons.IH[of "map_delete (fst x) m"]
      by (auto simp: map_delete_def intro!: filter_cong)
  next
    case False
    have "{e \<in> set (x # xs). P e} = {e \<in> set xs. P e}" using False by auto
    then show ?thesis using False Cons.IH[of m] by simp
  qed
qed

lemma distinct_keys_eq: "distinct (map fst rs) \<Longrightarrow> e \<in> set rs \<Longrightarrow> e' \<in> set rs \<Longrightarrow> fst e = fst e' \<Longrightarrow> e = e'"
  by (metis eq_key_imp_eq_value prod.collapse)

lemma sweepExpired_filter:
  assumes "distinct (map fst rs)"
  shows "sweepExpired cfg now rs = filter (\<lambda>e. \<not> room_expired cfg now (snd e)) rs"
  unfolding sweepExpired_def fold_delete_if
  by (rule filter_cong) (auto dest: distinct_keys_eq[OF assms])

lemma distinct_keys_filter: "distinct (map fst rs) \<Longrightarrow> distinct (map fst (filter P rs))"
  by (simp add: distinct_map_filter)

lemma sweepExpired_idem:
  assumes "distinct (map fst rs)"
  shows "sweepExpired cfg now (sweepExpired cfg now rs) = sweepExpired cfg now rs"
  using assms by (simp add: sweepExpired_filter distinct_keys_filter)

lemma filter_throwing_Some:
  "filter_throwing P xs = Some ys \<Longrightarrow> ys = filter (\<lambda>x. P x = Some True) xs"
  by (induction xs arbitrary: ys) (auto split: option.splits)

lemma filter_rooms_subset: "filter_rooms q xs = Some ys \<Longrightarrow> set ys \<subseteq> set xs"
  by (auto simp: filter_rooms_def Let_def dest!: filter_throwing_Some split: if_splits)

lemma set_sort_rooms: "set (sort_rooms s xs) = set xs"
  by (simp add: sort_rooms_def)


lemma ex_last: "lastActivity (example_room rid c) = c"
  by (simp add: lastActivity_def example_room_def create_room_def example_announcement_def)

lemma ex_expired: "room_expired example_config now (example_room rid c) \<longleftrightarrow> c \<noteq> 0 \<and> now - c > 600000"
  by (simp add: room_expired_def ex_last example_config_def)

text \<open>
  C5. A room of the registry whose last activity (\<open>updatedAt\<close>, or \<open>createdAt\<close> when
  \<open>updatedAt\<close> is not set; a time that is set is not 0) is more than \<open>PEER_TIMEOUT\<close>
  seconds before \<open>now\<close>. The sweep keeps exactly the entries that do not satisfy
  \<open>room_expired\<close>, so the room's key is gone; a valid \<open>GET /announce\<close> leaves the swept
  registry and does not list the room; \<open>GET /scrape\<close> leaves the swept registry, counts
  its rooms, and its statistics are those of the swept registry; the periodic cleanup of
  a registry within \<open>MAX_ROOMS\<close> is the same sweep. The keys of the registry are distinct.
\<close>

theorem expired_room_absent:
  assumes "distinct (map fst rs)" and "(k, r) \<in> set rs"
      and "lastActivity r \<noteq> 0" and "now - lastActivity r > PEER_TIMEOUT cfg * 1000"
  shows "sweepExpired cfg now rs = filter (\<lambda>e. \<not> room_expired cfg now (snd e)) rs
       \<and> k \<notin> fst ` set (sweepExpired cfg now rs)
       \<and> (validateQueryParams q = [] \<longrightarrow>
             snd (get_announce cfg now q rs) = sweepExpired cfg now rs
           \<and> (\<forall>l. fst (get_announce cfg now q rs) = Listed l \<longrightarrow> r \<notin> set (listed l)))
       \<and> snd (scrape cfg now rs) = sweepExpired cfg now rs
       \<and> totalRooms (fst (scrape cfg now rs)) = length (sweepExpired cfg now rs)
       \<and> fst (scrape cfg now rs) = fst (scrape cfg now (sweepExpired cfg now rs))
       \<and> (length rs \<le> MAX_ROOMS \<longrightarrow> roomCleanup cfg now rs = sweepExpired cfg now rs)"
proof -
  let ?S = "sweepExpired cfg now rs"
  have ex: "room_expired cfg now r" using assms(3,4) by (simp add: room_expired_def)
  have sw: "?S = filter (\<lambda>e. \<not> room_expired cfg now (snd e)) rs"
    using assms(1) by (rule sweepExpired_filter)
  have nk: "k \<notin> fst ` set ?S"
  proof
    assume "k \<in> fst ` set ?S"
    then obtain e where e: "e \<in> set rs" "\<not> room_expired cfg now (snd e)" "fst e = k"
      unfolding sw by auto
    from distinct_keys_eq[OF assms(1) e(1) assms(2)] e(3) have "e = (k, r)" by simp
    with e(2) ex show False by simp
  qed
  have nr: "r \<notin> snd ` set ?S" unfolding sw using ex by auto
  have ga: "snd (get_announce cfg now q rs) = ?S" if "validateQueryParams q = []"
    using that by (simp add: get_announce_def Let_def split: option.splits)
  have gl: "r \<notin> set (listed l)"
    if v: "validateQueryParams q = []" and l: "fst (get_announce cfg now q rs) = Listed l" for l
  proof -
    from v l obtain roomList where f: "filter_rooms q (map snd ?S) = Some roomList"
      and ll: "listed l = take (limit_of q) (drop (offset_of q) (sort_rooms (str_or (q_sort q) ''newest'') roomList))"
      by (auto simp: get_announce_def Let_def split: option.splits)
    have "set (listed l) \<subseteq> set (sort_rooms (str_or (q_sort q) ''newest'') roomList)"
      unfolding ll by (meson set_drop_subset set_take_subset subset_trans)
    then have "set (listed l) \<subseteq> set roomList" by (simp add: set_sort_rooms)
    also have "\<dots> \<subseteq> snd ` set ?S" using filter_rooms_subset[OF f] by simp
    finally show ?thesis using nr by blast
  qed
  have sc: "snd (scrape cfg now rs) = ?S" "totalRooms (fst (scrape cfg now rs)) = length ?S"
    by (simp_all add: scrape_def Let_def)
  have idem: "sweepExpired cfg now ?S = ?S" using assms(1) by (rule sweepExpired_idem)
  have sc2: "fst (scrape cfg now rs) = fst (scrape cfg now ?S)"
    by (simp add: scrape_def Let_def idem)
  have "length ?S \<le> length rs" unfolding sw by simp
  then have rc: "roomCleanup cfg now rs = ?S" if "length rs \<le> MAX_ROOMS"
    using that by (simp add: roomCleanup_def Let_def)
  show ?thesis using sw nk ga gl sc sc2 rc by blast
qed

theorem expired_room_absent_witness:
  "distinct (map fst [(JStr ''r1'', example_room ''r1'' 1000), (JStr ''r2'', example_room ''r2'' 500000)])
   \<and> (JStr ''r1'', example_room ''r1'' 1000)
        \<in> set [(JStr ''r1'', example_room ''r1'' 1000), (JStr ''r2'', example_room ''r2'' 500000)]
   \<and> lastActivity (example_room ''r1'' 1000) \<noteq> 0
   \<and> 601001 - lastActivity (example_room ''r1'' 1000) > PEER_TIMEOUT example_config * 1000
   \<and> sweepExpired example_config 601001
        [(JStr ''r1'', example_room ''r1'' 1000), (JStr ''r2'', example_room ''r2'' 500000)]
      = [(JStr ''r2'', example_room ''r2'' 500000)]
   \<and> validateQueryParams example_query = []
   \<and> snd (get_announce example_config 601001 example_query
        [(JStr ''r1'', example_room ''r1'' 1000), (JStr ''r2'', example_room ''r2'' 500000)])
      = [(JStr ''r2'', example_room ''r2'' 500000)]
   \<and> totalRooms (fst (scrape example_config 601001
        [(JStr ''r1'', example_room ''r1'' 1000), (JStr ''r2'', example_room ''r2'' 500000)])) = 1
   \<and> roomCleanup example_config 601001
        [(JStr ''r1'', example_room ''r1'' 1000), (JStr ''r2'', example_room ''r2'' 500000)]
      = [(JStr ''r2'', example_room ''r2'' 500000)]"
proof -
  let ?rs = "[(JStr ''r1'', example_room ''r1'' 1000), (JStr ''r2'', example_room ''r2'' 500000)]"
  have 1: "distinct (map fst ?rs)" by simp
  have 2: "(JStr ''r1'', example_room ''r1'' 1000) \<in> set ?rs" by simp
  have 3: "lastActivity (example_room ''r1'' 1000) \<noteq> 0" by (simp add: ex_last)
  have 4: "601001 - lastActivity (example_room ''r1'' 1000) > PEER_TIMEOUT example_config * 1000"
    by (simp add: ex_last example_config_def)
  have v: "validateQueryParams example_query = []"
    by (simp add: validateQueryParams_def example_query_def)
  have l: "length ?rs \<le> MAX_ROOMS" by (simp add: MAX_ROOMS_def)
  note th = expired_room_absent [OF 1 2 3 4, of example_query]
  have sw: "sweepExpired example_config 601001 ?rs = [(JStr ''r2'', example_room ''r2'' 500000)]"
    using th by (simp add: ex_expired)
  have ga: "snd (get_announce example_config 601001 example_query ?rs) = sweepExpired example_config 601001 ?rs"
    using th v by blast
  have sc: "totalRooms (fst (scrape example_config 601001 ?rs)) = length (sweepExpired example_config 601001 ?rs)"
    using th by blast
  have rc: "roomCleanup example_config 601001 ?rs = sweepExpired example_config 601001 ?rs"
    using th l by blast
  show ?thesis
    unfolding ga sc rc sw using 3 4 v by simp
qed





section \<open>Properties of the announce path\<close>

lemma keys_map_set: "fst ` set (map_set k v m) = insert k (fst ` set m)"
  by (induction m) auto

lemma distinct_map_set: "distinct (map fst m) \<Longrightarrow> distinct (map fst (map_set k v m))"
proof (induction m)
  case Nil
  then show ?case by simp
next
  case (Cons e m)
  then show ?case using keys_map_set[of k v m] by (auto simp: rev_image_eqI)
qed

lemma distinct_map_delete: "distinct (map fst m) \<Longrightarrow> distinct (map fst (map_delete k m))"
  by (simp add: map_delete_def distinct_map_filter)

lemma map_delete_distinct:
  assumes "distinct (map fst m)" and "e \<in> set m"
  shows "map_delete (fst e) m = filter (\<lambda>x. x \<noteq> e) m"
  unfolding map_delete_def
  by (rule filter_cong) (auto dest: distinct_keys_eq[OF assms(1) _ assms(2)])

lemma length_remove_one:
  assumes "distinct (map fst m)" and "e \<in> set m"
  shows "length (filter (\<lambda>x. x \<noteq> e) m) = length m - 1"
proof -
  have d: "distinct m" using assms(1) by (simp add: distinct_map)
  have "filter (\<lambda>x. x \<noteq> e) m = removeAll e m" by (induction m) auto
  then show ?thesis using d assms(2) by (simp add: distinct_remove1_removeAll[symmetric] length_remove1)
qed

text \<open>The room limit of the write path on a full registry.\<close>

lemma enforce_room_limit_full:
  assumes "length rs \<ge> MAX_ROOMS"
  shows "enforce_room_limit rs = map_delete (fst (hd (sort_key (\<lambda>e. createdAt (snd e)) rs))) rs"
    and "hd (sort_key (\<lambda>e. createdAt (snd e)) rs) \<in> set rs"
    and "\<forall>e\<in>set rs. createdAt (snd (hd (sort_key (\<lambda>e. createdAt (snd e)) rs))) \<le> createdAt (snd e)"
proof -
  let ?f = "\<lambda>e :: jsval \<times> room. createdAt (snd e)"
  have ne: "rs \<noteq> []" using assms by (auto simp: MAX_ROOMS_def)
  then have sne: "sort_key ?f rs \<noteq> []" by (rule sort_key_ne)
  then obtain e es where s: "sort_key ?f rs = e # es" by (cases "sort_key ?f rs") auto
  show "enforce_room_limit rs = map_delete (fst (hd (sort_key ?f rs))) rs"
    using assms by (simp add: enforce_room_limit_def s)
  show "hd (sort_key ?f rs) \<in> set rs" using ne by (rule hd_sort_key_in)
  show "\<forall>e\<in>set rs. ?f (hd (sort_key ?f rs)) \<le> ?f e"
    using sorted_hd_le[OF sorted_sort_key[of ?f rs]] by simp
qed

lemma enforce_room_limit_below: "length rs < MAX_ROOMS \<Longrightarrow> enforce_room_limit rs = rs"
  by (simp add: enforce_room_limit_def)

lemma length_enforce_room_limit:
  "length rs \<le> MAX_ROOMS \<Longrightarrow> length (enforce_room_limit rs) < MAX_ROOMS"
proof (cases "length rs < MAX_ROOMS")
  case True
  then show ?thesis by (simp add: enforce_room_limit_below)
next
  case False
  assume "length rs \<le> MAX_ROOMS"
  with False have full: "length rs \<ge> MAX_ROOMS" by simp
  have "map_has (fst (hd (sort_key (\<lambda>e. createdAt (snd e)) rs))) rs"
    using enforce_room_limit_full(2)[OF full] by (auto simp: map_has_def)
  from length_map_delete_less[OF this] \<open>length rs \<le> MAX_ROOMS\<close>
  show ?thesis unfolding enforce_room_limit_full(1)[OF full] by simp
qed

lemma distinct_enforce_room_limit:
  "distinct (map fst rs) \<Longrightarrow> distinct (map fst (enforce_room_limit rs))"
  by (auto simp: enforce_room_limit_def distinct_map_delete split: list.splits)

lemma post_announce_rooms:
  "rooms (snd (post_announce cfg now data reg)) =
     (if fst (validateAnnouncement cfg now data (usedNonces reg) (nonceTimers reg)) \<noteq> [] then rooms reg
      else map_set (announcement.roomId data)
             (case map_of (enforce_room_limit (rooms reg)) (announcement.roomId data) of
                Some room \<Rightarrow> update_room now data room | None \<Rightarrow> create_room now data)
             (enforce_room_limit (rooms reg)))"
  by (simp add: post_announce_def Let_def split: option.splits)

lemma post_announce_response:
  "fst (post_announce cfg now data reg) =
     (if fst (validateAnnouncement cfg now data (usedNonces reg) (nonceTimers reg)) \<noteq> []
      then BadRequest (fst (validateAnnouncement cfg now data (usedNonces reg) (nonceTimers reg)))
      else Announced
             (case map_of (enforce_room_limit (rooms reg)) (announcement.roomId data) of
                Some room \<Rightarrow> update_room now data room | None \<Rightarrow> create_room now data))"
  by (simp add: post_announce_def Let_def split: option.splits)

lemma length_sweepExpired: "length (sweepExpired cfg now rs) \<le> length rs"
  by (simp add: sweepExpired_def fold_delete_if)

lemma length_roomCleanup: "length rs \<le> MAX_ROOMS \<Longrightarrow> length (roomCleanup cfg now rs) \<le> MAX_ROOMS"
  using length_sweepExpired[of cfg now rs] by (simp add: roomCleanup_def Let_def)

lemma length_get_announce: "length (snd (get_announce cfg now q rs)) \<le> length rs"
  using length_sweepExpired[of cfg now rs]
  by (simp add: get_announce_def Let_def split: option.splits)

lemma length_scrape: "length (snd (scrape cfg now rs)) \<le> length rs"
  using length_sweepExpired[of cfg now rs] by (simp add: scrape_def Let_def)

lemma ex_rooms_distinct: "distinct (map fst (example_rooms n))"
  by (simp add: example_rooms_def distinct_map comp_def inj_on_def)

text \<open>
  C2. The registry has distinct keys and at most \<open>MAX_ROOMS\<close> rooms. When it has exactly
  \<open>MAX_ROOMS\<close> rooms and a valid announcement brings a new \<open>roomId\<close>, the room removed
  is the first of the rooms sorted by \<open>createdAt\<close>: it has the smallest \<open>createdAt\<close>,
  exactly that one entry is removed, and the new room is appended and present. After
  \<open>POST /announce\<close> (any body), the sweep, \<open>GET /announce\<close>, \<open>GET /scrape\<close> and the
  periodic cleanup the registry still has at most \<open>MAX_ROOMS\<close> rooms, and after
  \<open>POST /announce\<close> its keys are still distinct.
\<close>

theorem capacity_eviction:
  assumes "distinct (map fst (rooms reg))" and "length (rooms reg) \<le> MAX_ROOMS"
      and "victim = hd (sort_key (\<lambda>e. createdAt (snd e)) (rooms reg))"
  shows "(length (rooms reg) = MAX_ROOMS
          \<and> fst (validateAnnouncement cfg now data (usedNonces reg) (nonceTimers reg)) = []
          \<and> map_of (rooms reg) (announcement.roomId data) = None \<longrightarrow>
            victim \<in> set (rooms reg)
          \<and> (\<forall>e\<in>set (rooms reg). createdAt (snd victim) \<le> createdAt (snd e))
          \<and> rooms (snd (post_announce cfg now data reg))
              = filter (\<lambda>e. e \<noteq> victim) (rooms reg) @ [(announcement.roomId data, create_room now data)]
          \<and> length (filter (\<lambda>e. e \<noteq> victim) (rooms reg)) = MAX_ROOMS - 1
          \<and> fst (post_announce cfg now data reg) = Announced (create_room now data)
          \<and> map_of (rooms (snd (post_announce cfg now data reg))) (announcement.roomId data)
              = Some (create_room now data))
       \<and> length (rooms (snd (post_announce cfg now data reg))) \<le> MAX_ROOMS
       \<and> distinct (map fst (rooms (snd (post_announce cfg now data reg))))
       \<and> length (sweepExpired cfg now (rooms reg)) \<le> MAX_ROOMS
       \<and> length (snd (get_announce cfg now q (rooms reg))) \<le> MAX_ROOMS
       \<and> length (snd (scrape cfg now (rooms reg))) \<le> MAX_ROOMS
       \<and> length (roomCleanup cfg now (rooms reg)) \<le> MAX_ROOMS"
proof -
  let ?rs = "rooms reg"
  let ?id = "announcement.roomId data"
  let ?rs' = "rooms (snd (post_announce cfg now data reg))"
  have evict: "victim \<in> set ?rs
          \<and> (\<forall>e\<in>set ?rs. createdAt (snd victim) \<le> createdAt (snd e))
          \<and> ?rs' = filter (\<lambda>e. e \<noteq> victim) ?rs @ [(?id, create_room now data)]
          \<and> length (filter (\<lambda>e. e \<noteq> victim) ?rs) = MAX_ROOMS - 1
          \<and> fst (post_announce cfg now data reg) = Announced (create_room now data)
          \<and> map_of ?rs' ?id = Some (create_room now data)"
    if full: "length ?rs = MAX_ROOMS"
      and ok: "fst (validateAnnouncement cfg now data (usedNonces reg) (nonceTimers reg)) = []"
      and new: "map_of ?rs ?id = None"
  proof -
    have ge: "length ?rs \<ge> MAX_ROOMS" using full by simp
    note lim = enforce_room_limit_full[OF ge, folded assms(3)]
    have e: "enforce_room_limit ?rs = filter (\<lambda>e. e \<noteq> victim) ?rs"
      unfolding lim(1) using assms(1) lim(2) by (rule map_delete_distinct)
    have none: "map_of (filter (\<lambda>e. e \<noteq> victim) ?rs) ?id = None"
      using new by (metis (mono_tags, lifting) filter_is_subset map_of_eq_None_iff image_mono subsetD)
    then have abs: "\<not> map_has ?id (filter (\<lambda>e. e \<noteq> victim) ?rs)" by (simp add: map_has_iff)
    have r: "?rs' = filter (\<lambda>e. e \<noteq> victim) ?rs @ [(?id, create_room now data)]"
      unfolding post_announce_rooms e using ok none by (simp add: map_set_absent[OF abs])
    have l: "length (filter (\<lambda>e. e \<noteq> victim) ?rs) = MAX_ROOMS - 1"
      using length_remove_one[OF assms(1) lim(2)] full by simp
    have a: "fst (post_announce cfg now data reg) = Announced (create_room now data)"
      unfolding post_announce_response e using ok none by simp
    have m: "map_of ?rs' ?id = Some (create_room now data)"
      unfolding r using none by (simp add: map_add_def)
    show ?thesis using lim(2,3) r l a m by blast
  qed
  have len: "length ?rs' \<le> MAX_ROOMS"
    using length_enforce_room_limit[OF assms(2)] assms(2)
    unfolding post_announce_rooms by (simp add: length_map_set)
  have dist: "distinct (map fst ?rs')"
    unfolding post_announce_rooms
    using assms(1) by (simp add: distinct_map_set distinct_enforce_room_limit)
  have s1: "length (sweepExpired cfg now ?rs) \<le> MAX_ROOMS"
    using length_sweepExpired[of cfg now ?rs] assms(2) by simp
  have s2: "length (snd (get_announce cfg now q ?rs)) \<le> MAX_ROOMS"
    using length_get_announce[of cfg now q ?rs] assms(2) by simp
  have s3: "length (snd (scrape cfg now ?rs)) \<le> MAX_ROOMS"
    using length_scrape[of cfg now ?rs] assms(2) by simp
  have s4: "length (roomCleanup cfg now ?rs) \<le> MAX_ROOMS"
    using assms(2) by (rule length_roomCleanup)
  show ?thesis using evict len dist s1 s2 s3 s4 by blast
qed

theorem capacity_eviction_witness:
  "distinct (map fst (example_rooms 100))
   \<and> length (example_rooms 100) = MAX_ROOMS
   \<and> hd (sort_key (\<lambda>e. createdAt (snd e)) (example_rooms 100)) = (JStr ''a'', example_room ''a'' 1000)
   \<and> fst (validateAnnouncement example_config 200000 (example_announcement ''b'') [] []) = []
   \<and> map_of (example_rooms 100) (JStr ''b'') = None
   \<and> rooms (snd (post_announce example_config 200000 (example_announcement ''b'')
         \<lparr>rooms = example_rooms 100, usedNonces = [], nonceTimers = []\<rparr>))
      = filter (\<lambda>e. e \<noteq> (JStr ''a'', example_room ''a'' 1000)) (example_rooms 100)
        @ [(JStr ''b'', create_room 200000 (example_announcement ''b''))]
   \<and> length (rooms (snd (post_announce example_config 200000 (example_announcement ''b'')
         \<lparr>rooms = example_rooms 100, usedNonces = [], nonceTimers = []\<rparr>))) \<le> MAX_ROOMS"
proof -
  let ?reg = "\<lparr>rooms = example_rooms 100, usedNonces = [], nonceTimers = []\<rparr>"
  let ?d = "example_announcement ''b''"
  have 1: "distinct (map fst (rooms ?reg))" by (simp add: ex_rooms_distinct)
  have 2: "length (rooms ?reg) \<le> MAX_ROOMS" "length (rooms ?reg) = MAX_ROOMS"
    by (simp_all add: example_rooms_def MAX_ROOMS_def)
  have 3: "(JStr ''a'', example_room ''a'' 1000) = hd (sort_key (\<lambda>e. createdAt (snd e)) (rooms ?reg))"
    by code_simp
  have 4: "fst (validateAnnouncement example_config 200000 ?d (usedNonces ?reg) (nonceTimers ?reg)) = []"
    by code_simp
  have 5: "map_of (rooms ?reg) (announcement.roomId ?d) = None"
    by code_simp
  note th = capacity_eviction [OF 1 2(1) 3, of example_config 200000 ?d]
  have a: "rooms (snd (post_announce example_config 200000 ?d ?reg))
      = filter (\<lambda>e. e \<noteq> (JStr ''a'', example_room ''a'' 1000)) (example_rooms 100)
        @ [(JStr ''b'', create_room 200000 ?d)]"
    using th 2(2) 4 5 by (simp add: example_announcement_def)
  have b: "length (rooms (snd (post_announce example_config 200000 ?d ?reg))) \<le> MAX_ROOMS"
    using th by blast
  show ?thesis using 1 2 3 4 5 a b by (simp add: example_announcement_def)
qed

text \<open>
  C4 (how the code behaves). The room limit is enforced before the handler looks the
  \<open>roomId\<close> up: on a registry of \<open>MAX_ROOMS\<close> rooms, a valid announcement for the
  existing room \<open>aa\<close> deletes the oldest room \<open>a\<close> and leaves 99 rooms.
\<close>

theorem update_at_capacity_evicts:
  "length (example_rooms 100) = MAX_ROOMS
   \<and> map_of (example_rooms 100) (JStr ''aa'') = Some (example_room ''aa'' 1001)
   \<and> map_of (example_rooms 100) (JStr ''a'') = Some (example_room ''a'' 1000)
   \<and> length (rooms (snd (post_announce example_config 200000 (example_announcement ''aa'')
         \<lparr>rooms = example_rooms 100, usedNonces = [], nonceTimers = []\<rparr>))) = 99
   \<and> map_of (rooms (snd (post_announce example_config 200000 (example_announcement ''aa'')
         \<lparr>rooms = example_rooms 100, usedNonces = [], nonceTimers = []\<rparr>))) (JStr ''a'') = None"
  by code_simp

text \<open>
  C1 (the claim as stated fails). A body with only \<open>roomId\<close> and \<open>status: "active"\<close> for
  a room the registry holds is answered 400, because every announcement must carry
  \<open>player1Name\<close>, \<open>player1WalletAddress\<close>, \<open>player1PeerId\<close> and \<open>appBaseUrl\<close>; the
  registry is unchanged.
\<close>

theorem status_only_update_rejected:
  "post_announce example_config 2000 (status_only ''r1'')
     \<lparr>rooms = [(JStr ''r1'', example_room ''r1'' 1000)], usedNonces = [], nonceTimers = []\<rparr>
   = (BadRequest [''Missing or invalid player1Name'', ''Missing or invalid player1WalletAddress'',
                  ''Missing or invalid player1PeerId'', ''Missing or invalid appBaseUrl''],
      \<lparr>rooms = [(JStr ''r1'', example_room ''r1'' 1000)], usedNonces = [], nonceTimers = []\<rparr>)"
  by code_simp

lemma field_errors_mandatory:
  assumes "field_errors cfg now data = []"
  shows "truthy (announcement.appBaseUrl data)"
    and "truthy (announcement.player1Name data)"
    and "truthy (announcement.player1WalletAddress data)"
    and "truthy (announcement.player1PeerId data)"
proof -
  have a: "field_errors cfg now data \<noteq> []" if "\<not> truthy (announcement.appBaseUrl data)"
    unfolding field_errors_def Let_def using that by (simp split del: if_split)
  have b: "field_errors cfg now data \<noteq> []" if "\<not> truthy (announcement.player1Name data)"
    unfolding field_errors_def Let_def using that by (simp split del: if_split)
  have c: "field_errors cfg now data \<noteq> []" if "\<not> truthy (announcement.player1WalletAddress data)"
    unfolding field_errors_def Let_def using that by (simp split del: if_split)
  have d: "field_errors cfg now data \<noteq> []" if "\<not> truthy (announcement.player1PeerId data)"
    unfolding field_errors_def Let_def using that by (simp split del: if_split)
  show "truthy (announcement.appBaseUrl data)" using a assms by blast
  show "truthy (announcement.player1Name data)" using b assms by blast
  show "truthy (announcement.player1WalletAddress data)" using c assms by blast
  show "truthy (announcement.player1PeerId data)" using d assms by blast
qed

lemma validate_ok_fields:
  "fst (validateAnnouncement cfg now data used timers) = [] \<Longrightarrow> field_errors cfg now data = []"
  by (simp add: validateAnnouncement_def Let_def)

text \<open>
  C1 (as amended). On a registry below \<open>MAX_ROOMS\<close>, an announcement that passes
  validation for a \<open>roomId\<close> the registry holds is answered with the merged room, which
  replaces the old one in place; the keys and all other rooms are unchanged;
  \<open>createdAt\<close> and \<open>roomId\<close> are unchanged and \<open>updatedAt\<close> is \<open>now\<close>. The four
  mandatory fields \<open>appBaseUrl\<close>, \<open>player1Name\<close>, \<open>player1WalletAddress\<close> and
  \<open>player1PeerId\<close> take the values of the body. \<open>status\<close> and the four optional
  \<open>player1\<close> fields keep their value when omitted and take a truthy value of the body.
  \<open>gameType\<close>, \<open>public\<close>, the seven \<open>player2\<close> fields, \<open>stateChannelCoinId\<close>,
  \<open>activeGameId\<close> and \<open>wagerAmount\<close> keep their value when omitted and take any value
  the body has, which for the nullable ones (all but \<open>public\<close> and \<open>wagerAmount\<close>)
  includes an explicit \<open>null\<close>.
\<close>

theorem update_merges:
  assumes ok: "fst (validateAnnouncement cfg now data (usedNonces reg) (nonceTimers reg)) = []"
      and ex: "map_of (rooms reg) (announcement.roomId data) = Some room"
      and below: "length (rooms reg) < MAX_ROOMS"
      and r': "room' = update_room now data room"
      and rs': "rs' = rooms (snd (post_announce cfg now data reg))"
  shows "fst (post_announce cfg now data reg) = Announced room'
       \<and> rs' = map_set (announcement.roomId data) room' (rooms reg)
       \<and> map fst rs' = map fst (rooms reg)
       \<and> map_of rs' (announcement.roomId data) = Some room'
       \<and> (\<forall>k. k \<noteq> announcement.roomId data \<longrightarrow> map_of rs' k = map_of (rooms reg) k)
       \<and> createdAt room' = createdAt room \<and> roomId room' = roomId room \<and> updatedAt room' = now
       \<and> appBaseUrl room' = announcement.appBaseUrl data
       \<and> player1Name room' = announcement.player1Name data
       \<and> player1WalletAddress room' = announcement.player1WalletAddress data
       \<and> player1PeerId room' = announcement.player1PeerId data
       \<and> (announcement.status data = JUndefined \<longrightarrow> status room' = status room)
       \<and> (truthy (announcement.status data) \<longrightarrow> status room' = announcement.status data)
       \<and> (announcement.player1WalletPuzzleHash data = JUndefined \<longrightarrow> player1WalletPuzzleHash room' = player1WalletPuzzleHash room)
       \<and> (truthy (announcement.player1WalletPuzzleHash data) \<longrightarrow> player1WalletPuzzleHash room' = announcement.player1WalletPuzzleHash data)
       \<and> (announcement.player1PublicKey data = JUndefined \<longrightarrow> player1PublicKey room' = player1PublicKey room)
       \<and> (truthy (announcement.player1PublicKey data) \<longrightarrow> player1PublicKey room' = announcement.player1PublicKey data)
       \<and> (announcement.player1IdentityPublicKey data = JUndefined \<longrightarrow> player1IdentityPublicKey room' = player1IdentityPublicKey room)
       \<and> (truthy (announcement.player1IdentityPublicKey data) \<longrightarrow> player1IdentityPublicKey room' = announcement.player1IdentityPublicKey data)
       \<and> (announcement.player1IdentityAddress data = JUndefined \<longrightarrow> player1IdentityAddress room' = player1IdentityAddress room)
       \<and> (truthy (announcement.player1IdentityAddress data) \<longrightarrow> player1IdentityAddress room' = announcement.player1IdentityAddress data)
       \<and> gameType room' = (if announcement.gameType data \<noteq> JUndefined then announcement.gameType data else gameType room)
       \<and> public room' = (if announcement.public data \<noteq> JUndefined then announcement.public data else public room)
       \<and> player2Name room' = (if announcement.player2Name data \<noteq> JUndefined then announcement.player2Name data else player2Name room)
       \<and> player2WalletAddress room' = (if announcement.player2WalletAddress data \<noteq> JUndefined then announcement.player2WalletAddress data else player2WalletAddress room)
       \<and> player2WalletPuzzleHash room' = (if announcement.player2WalletPuzzleHash data \<noteq> JUndefined then announcement.player2WalletPuzzleHash data else player2WalletPuzzleHash room)
       \<and> player2PublicKey room' = (if announcement.player2PublicKey data \<noteq> JUndefined then announcement.player2PublicKey data else player2PublicKey room)
       \<and> player2IdentityPublicKey room' = (if announcement.player2IdentityPublicKey data \<noteq> JUndefined then announcement.player2IdentityPublicKey data else player2IdentityPublicKey room)
       \<and> player2IdentityAddress room' = (if announcement.player2IdentityAddress data \<noteq> JUndefined then announcement.player2IdentityAddress data else player2IdentityAddress room)
       \<and> player2PeerId room' = (if announcement.player2PeerId data \<noteq> JUndefined then announcement.player2PeerId data else player2PeerId room)
       \<and> stateChannelCoinId room' = (if announcement.stateChannelCoinId data \<noteq> JUndefined then announcement.stateChannelCoinId data else stateChannelCoinId room)
       \<and> activeGameId room' = (if announcement.activeGameId data \<noteq> JUndefined then announcement.activeGameId data else activeGameId room)
       \<and> wagerAmount room' = (case announcement.wagerAmount data of None \<Rightarrow> wagerAmount room | Some w \<Rightarrow> w)"
proof -
  have lim: "enforce_room_limit (rooms reg) = rooms reg" using below by (rule enforce_room_limit_below)
  have a: "fst (post_announce cfg now data reg) = Announced room'"
    unfolding post_announce_response lim r' using ok ex by simp
  have b: "rs' = map_set (announcement.roomId data) room' (rooms reg)"
    unfolding rs' post_announce_rooms lim r' using ok ex by simp
  have has: "map_has (announcement.roomId data) (rooms reg)" using ex by (simp add: map_has_iff)
  have keys: "map fst (map_set k v m) = map fst m" if "map_has k m" for k :: jsval and v :: room and m
    using that by (induction m) (auto simp: map_has_def)
  have c: "map fst rs' = map fst (rooms reg)" unfolding b using has by (rule keys)
  have d: "map_of rs' (announcement.roomId data) = Some room'" unfolding b by (simp add: map_of_map_set)
  have e: "map_of rs' k = map_of (rooms reg) k" if "k \<noteq> announcement.roomId data" for k
    unfolding b using that by (simp add: map_of_map_set)
  have f: "createdAt room' = createdAt room \<and> roomId room' = roomId room \<and> updatedAt room' = now"
    unfolding r' update_room_def by simp
  note m = field_errors_mandatory [OF validate_ok_fields [OF ok]]
  have g0: "appBaseUrl room' = announcement.appBaseUrl data
       \<and> player1Name room' = announcement.player1Name data
       \<and> player1WalletAddress room' = announcement.player1WalletAddress data
       \<and> player1PeerId room' = announcement.player1PeerId data"
    unfolding r' update_room_def using m by simp
  have g1: "(announcement.status data = JUndefined \<longrightarrow> status room' = status room)
       \<and> (truthy (announcement.status data) \<longrightarrow> status room' = announcement.status data)
       \<and> (announcement.player1WalletPuzzleHash data = JUndefined \<longrightarrow> player1WalletPuzzleHash room' = player1WalletPuzzleHash room)
       \<and> (truthy (announcement.player1WalletPuzzleHash data) \<longrightarrow> player1WalletPuzzleHash room' = announcement.player1WalletPuzzleHash data)
       \<and> (announcement.player1PublicKey data = JUndefined \<longrightarrow> player1PublicKey room' = player1PublicKey room)
       \<and> (truthy (announcement.player1PublicKey data) \<longrightarrow> player1PublicKey room' = announcement.player1PublicKey data)
       \<and> (announcement.player1IdentityPublicKey data = JUndefined \<longrightarrow> player1IdentityPublicKey room' = player1IdentityPublicKey room)
       \<and> (truthy (announcement.player1IdentityPublicKey data) \<longrightarrow> player1IdentityPublicKey room' = announcement.player1IdentityPublicKey data)
       \<and> (announcement.player1IdentityAddress data = JUndefined \<longrightarrow> player1IdentityAddress room' = player1IdentityAddress room)
       \<and> (truthy (announcement.player1IdentityAddress data) \<longrightarrow> player1IdentityAddress room' = announcement.player1IdentityAddress data)"
    unfolding r' update_room_def by (simp add: js_or_def)
  have g2: "gameType room' = (if announcement.gameType data \<noteq> JUndefined then announcement.gameType data else gameType room)
       \<and> public room' = (if announcement.public data \<noteq> JUndefined then announcement.public data else public room)
       \<and> player2Name room' = (if announcement.player2Name data \<noteq> JUndefined then announcement.player2Name data else player2Name room)
       \<and> player2WalletAddress room' = (if announcement.player2WalletAddress data \<noteq> JUndefined then announcement.player2WalletAddress data else player2WalletAddress room)
       \<and> player2WalletPuzzleHash room' = (if announcement.player2WalletPuzzleHash data \<noteq> JUndefined then announcement.player2WalletPuzzleHash data else player2WalletPuzzleHash room)
       \<and> player2PublicKey room' = (if announcement.player2PublicKey data \<noteq> JUndefined then announcement.player2PublicKey data else player2PublicKey room)
       \<and> player2IdentityPublicKey room' = (if announcement.player2IdentityPublicKey data \<noteq> JUndefined then announcement.player2IdentityPublicKey data else player2IdentityPublicKey room)
       \<and> player2IdentityAddress room' = (if announcement.player2IdentityAddress data \<noteq> JUndefined then announcement.player2IdentityAddress data else player2IdentityAddress room)
       \<and> player2PeerId room' = (if announcement.player2PeerId data \<noteq> JUndefined then announcement.player2PeerId data else player2PeerId room)
       \<and> stateChannelCoinId room' = (if announcement.stateChannelCoinId data \<noteq> JUndefined then announcement.stateChannelCoinId data else stateChannelCoinId room)
       \<and> activeGameId room' = (if announcement.activeGameId data \<noteq> JUndefined then announcement.activeGameId data else activeGameId room)
       \<and> wagerAmount room' = (case announcement.wagerAmount data of None \<Rightarrow> wagerAmount room | Some w \<Rightarrow> w)"
    unfolding r' update_room_def by (simp split del: if_split cong: if_cong option.case_cong)
  show ?thesis using a b c d e f g0 g1 g2 by blast
qed

theorem update_merges_witness:
  "fst (validateAnnouncement example_config 2000
          ((example_announcement ''r1'')\<lparr>announcement.status := JStr ''active'', announcement.player2Name := JNull\<rparr>) [] []) = []
   \<and> map_of [(JStr ''r0'', example_room ''r0'' 500), (JStr ''r1'', example_joined_room)] (JStr ''r1'')
       = Some example_joined_room
   \<and> length [(JStr ''r0'', example_room ''r0'' 500), (JStr ''r1'', example_joined_room)] < MAX_ROOMS
   \<and> status example_joined_room = JStr ''waiting''
   \<and> player2Name example_joined_room = JStr ''Player2''
   \<and> createdAt example_joined_room = 1000
   \<and> post_announce example_config 2000
        ((example_announcement ''r1'')\<lparr>announcement.status := JStr ''active'', announcement.player2Name := JNull\<rparr>)
        \<lparr>rooms = [(JStr ''r0'', example_room ''r0'' 500), (JStr ''r1'', example_joined_room)],
         usedNonces = [], nonceTimers = []\<rparr>
      = (Announced (example_joined_room\<lparr>status := JStr ''active'', player2Name := JNull, updatedAt := 2000\<rparr>),
         \<lparr>rooms = [(JStr ''r0'', example_room ''r0'' 500),
                   (JStr ''r1'', example_joined_room\<lparr>status := JStr ''active'', player2Name := JNull, updatedAt := 2000\<rparr>)],
          usedNonces = [], nonceTimers = []\<rparr>)
   \<and> player2Name (update_room 2000
        ((example_announcement ''r1'')\<lparr>announcement.status := JStr ''active'', announcement.player2Name := JNull\<rparr>)
        example_joined_room) = JNull
   \<and> status (update_room 2000
        ((example_announcement ''r1'')\<lparr>announcement.status := JStr ''active'', announcement.player2Name := JNull\<rparr>)
        example_joined_room) = JStr ''active''
   \<and> createdAt (update_room 2000
        ((example_announcement ''r1'')\<lparr>announcement.status := JStr ''active'', announcement.player2Name := JNull\<rparr>)
        example_joined_room) = 1000"
proof -
  let ?d = "(example_announcement ''r1'')\<lparr>announcement.status := JStr ''active'', announcement.player2Name := JNull\<rparr>"
  let ?rs = "[(JStr ''r0'', example_room ''r0'' 500), (JStr ''r1'', example_joined_room)]"
  let ?reg = "\<lparr>rooms = ?rs, usedNonces = [], nonceTimers = []\<rparr>"
  let ?r' = "example_joined_room\<lparr>status := JStr ''active'', player2Name := JNull, updatedAt := 2000\<rparr>"
  have 1: "fst (validateAnnouncement example_config 2000 ?d (usedNonces ?reg) (nonceTimers ?reg)) = []"
    by code_simp
  have 2: "map_of (rooms ?reg) (announcement.roomId ?d) = Some example_joined_room"
    by (simp add: example_announcement_def)
  have 3: "length (rooms ?reg) < MAX_ROOMS" by (simp add: MAX_ROOMS_def)
  have o: "status example_joined_room = JStr ''waiting''"
       "player2Name example_joined_room = JStr ''Player2''"
       "createdAt example_joined_room = 1000"
    by code_simp+
  have d: "announcement.status ?d = JStr ''active''" "announcement.player2Name ?d = JNull"
    by simp_all
  have u: "update_room 2000 ?d example_joined_room = ?r'"
    by code_simp
  have n: "snd (snd (validateAnnouncement example_config 2000 ?d [] [])) = []"
       "fst (snd (validateAnnouncement example_config 2000 ?d [] [])) = []"
    by code_simp+
  have s: "snd (post_announce example_config 2000 ?d ?reg)
             = \<lparr>rooms = rooms (snd (post_announce example_config 2000 ?d ?reg)), usedNonces = [], nonceTimers = []\<rparr>"
    using n by (simp add: post_announce_def Let_def split: option.splits)
  note th = update_merges [OF 1 2 3 refl refl]
  have a: "fst (post_announce example_config 2000 ?d ?reg) = Announced ?r'"
    using th unfolding u by blast
  have b: "rooms (snd (post_announce example_config 2000 ?d ?reg))
             = [(JStr ''r0'', example_room ''r0'' 500), (JStr ''r1'', ?r')]"
    using th unfolding u by (simp add: example_announcement_def)
  have p2: "player2Name (update_room 2000 ?d example_joined_room) = JNull"
    using th unfolding d by simp
  have st: "status (update_room 2000 ?d example_joined_room) = JStr ''active''"
    using th unfolding d by simp
  have cr: "createdAt (update_room 2000 ?d example_joined_room) = 1000"
    using th o(3) by simp
  have p: "post_announce example_config 2000 ?d ?reg
             = (fst (post_announce example_config 2000 ?d ?reg), snd (post_announce example_config 2000 ?d ?reg))"
    by simp
  show ?thesis
    using 1 2 3 o p2 st cr by (subst p, subst s, simp only: a b) simp
qed

end
